theory Spec2Isabelle
  imports Complex_Main "HOL-Library.Word"
begin

section \<open>Producer: the sensor node (\<open>esp32_smartfire.ino\<close>)\<close>

subsection \<open>Severity classification\<close>

text \<open>
  The four thresholds are the constants of the sketch's configuration block. The analog
  reading is a C \<open>int\<close>; the classifier only compares it, so no arithmetic can overflow
  and the reading is modelled as an unbounded integer.
\<close>

definition EXTREME_THRESHOLD :: int where "EXTREME_THRESHOLD = 500"
definition HIGH_THRESHOLD :: int where "HIGH_THRESHOLD = 1000"
definition MODERATE_THRESHOLD :: int where "MODERATE_THRESHOLD = 2000"
definition LOW_THRESHOLD :: int where "LOW_THRESHOLD = 3000"

definition classifySeverity :: "int \<Rightarrow> string" where
  "classifySeverity sensorValue =
     (if sensorValue < EXTREME_THRESHOLD then ''EXTREME''
      else if sensorValue < HIGH_THRESHOLD then ''HIGH''
      else if sensorValue < MODERATE_THRESHOLD then ''MODERATE''
      else if sensorValue < LOW_THRESHOLD then ''LOW''
      else ''NONE'')"

text \<open>
  The urgency order of the five levels (EXTREME above HIGH above MODERATE above LOW above
  NONE) is the one the data model of the specification gives; the sketch itself never
  compares two levels. Any other string ranks with NONE.
\<close>

definition urgency :: "string \<Rightarrow> nat" where
  "urgency s =
     (if s = ''EXTREME'' then 4 else if s = ''HIGH'' then 3
      else if s = ''MODERATE'' then 2 else if s = ''LOW'' then 1 else 0)"

subsection \<open>Position validation\<close>

text \<open>
  What the sketch reads of the TinyGPS++ location object: the fix indicator
  (\<open>location.isValid()\<close>), the age of the fix in milliseconds (\<open>location.age()\<close>, an
  unsigned 32-bit value) and the two coordinates \<open>location.lat()\<close> and
  \<open>location.lng()\<close> (C doubles, taken here as real numbers; the producer never
  computes with them).
\<close>

record gps_location =
  isValid :: bool
  age :: "32 word"
  fix_lat :: real
  fix_lng :: real

definition isGPSValid :: "gps_location \<Rightarrow> bool" where
  "isGPSValid g \<longleftrightarrow> isValid g \<and> age g < 2000"

subsection \<open>Timestamp\<close>

fun decimal :: "nat \<Rightarrow> string" where
  "decimal n =
     (if n < 10 then [''0123456789'' ! n]
      else decimal (n div 10) @ [''0123456789'' ! (n mod 10)])"

text \<open>
  \<open>millis()\<close> is an \<open>unsigned long\<close> of 32 bits; the divisions are unsigned, and the
  date part is the fixed text of the sketch.
\<close>

definition getTimestamp :: "32 word \<Rightarrow> string" where
  "getTimestamp currentMillis =
     (let seconds = currentMillis div 1000;
          minutes = seconds div 60;
          hours = minutes div 60
      in ''2026-01-22 ''
         @ (if hours mod 24 < 10 then ''0'' else '''')
         @ decimal (unat (hours mod 24))
         @ '':''
         @ (if minutes mod 60 < 10 then ''0'' else '''')
         @ decimal (unat (minutes mod 60)))"

subsection \<open>The endpoint handler\<close>

record http_response =
  resp_code :: nat
  resp_contentType :: string
  resp_body :: string

text \<open>
  \<open>handleFireAlert\<close> takes what the handler reads from the hardware: the analog sample,
  the value of \<open>millis()\<close> and the location object after \<open>readGPS()\<close>. The first argument
  stands for Arduino's \<open>String(x, 6)\<close>, the rendering of a double with six decimals.
\<close>

definition handleFireAlert ::
  "(real \<Rightarrow> string) \<Rightarrow> int \<Rightarrow> 32 word \<Rightarrow> gps_location \<Rightarrow> http_response" where
  \<open>handleFireAlert String6 sensorValue currentMillis gps =
     (let severity = classifySeverity sensorValue;
          jsonResponse = ''{'';
          jsonResponse = jsonResponse @ ''"severity":"'' @ severity @ ''",'';
          jsonResponse = jsonResponse @ ''"time":"'' @ getTimestamp currentMillis @ ''",'';
          jsonResponse =
            (if isGPSValid gps
             then jsonResponse @ ''"latitude":'' @ String6 (fix_lat gps) @ '',''
                               @ ''"longitude":'' @ String6 (fix_lng gps)
             else jsonResponse @ ''"latitude":16.615,'' @ ''"longitude":120.316'');
          jsonResponse = jsonResponse @ ''}''
      in \<lparr>resp_code = 200, resp_contentType = ''application/json'', resp_body = jsonResponse\<rparr>)\<close>

section \<open>Consumer: the monitoring client (\<open>components/map-imports.ts\<close>)\<close>

subsection \<open>Numbers\<close>

text \<open>
  A JavaScript number is an IEEE 754 double. A finite double is modelled by the real number
  it denotes, and \<open>double x\<close> is the double nearest to the real number \<open>x\<close>, the one
  with the even mantissa when two are equally near: the value of a decimal literal \<open>x\<close>,
  in the source or in a JSON body, and the result of an arithmetic operation whose exact
  result is \<open>x\<close>. A double has a mantissa of 53 bits; below \<open>2 powi (- 1022)\<close> the
  spacing stays at \<open>2 powi (- 1074)\<close>. Numbers beyond the largest double, which the
  program reads as infinite, are outside the model: they are rounded as if the exponent
  had no upper end.
\<close>

text \<open>The number of binary digits of a natural number.\<close>

fun bitLength :: "nat \<Rightarrow> nat" where
  "bitLength n = (if n = 0 then 0 else Suc (bitLength (n div 2)))"

text \<open>For a positive \<open>x\<close>, the exponent \<open>e\<close> with \<open>2 powi e \<le> x < 2 powi (e + 1)\<close>.\<close>

definition ilog2 :: "real \<Rightarrow> int" where
  "ilog2 x =
     (if 1 \<le> x then int (bitLength (nat \<lfloor>x\<rfloor>)) - 1
      else - int (bitLength (nat (\<lceil>1 / x\<rceil> - 1))))"

definition roundHalfEven :: "real \<Rightarrow> int" where
  "roundHalfEven y =
     (let f = \<lfloor>y\<rfloor>
      in if y - of_int f < 1 / 2 then f
         else if 1 / 2 < y - of_int f then f + 1
         else if even f then f else f + 1)"

definition double :: "real \<Rightarrow> real" where
  "double x =
     (if x = 0 then 0
      else (let e = max (ilog2 \<bar>x\<bar>) (- 1022) - 52
            in sgn x * of_int (roundHalfEven (\<bar>x\<bar> / 2 powi e)) * 2 powi e))"

subsection \<open>Values read from the response\<close>

text \<open>
  The client reads the body with \<open>response.json()\<close> and never checks its shape, so a
  field of the parsed object is whatever JSON held there. A field is modelled by the
  JavaScript value it reads as: absent (\<open>undefined\<close>), \<open>null\<close>, a boolean, a number or
  a string. Nested objects and arrays as field values are outside the model. \<open>JNum x\<close>
  is a number written as \<open>x\<close> in the body; the value the program has is \<open>double x\<close>.
\<close>

datatype jsval = JUndefined | JNull | JBool bool | JNum real | JStr string

definition truthy :: "jsval \<Rightarrow> bool" where
  "truthy v =
     (case v of JUndefined \<Rightarrow> False | JNull \<Rightarrow> False | JBool b \<Rightarrow> b
      | JNum x \<Rightarrow> double x \<noteq> 0 | JStr s \<Rightarrow> s \<noteq> [])"

text \<open>The interface \<open>ESP32FireAlert\<close>, with the fields as they arrive.\<close>

record ESP32FireAlert =
  severity :: jsval
  time :: jsval
  latitude :: jsval
  longitude :: jsval

text \<open>
  What a fetch can come to. \<open>FetchRejected\<close>: the promise of \<open>fetch\<close> rejects (no
  connection, or the abort signal of 2000 ms fires). Otherwise a response arrives with a
  status and a body; the body is not JSON (\<open>response.json()\<close> rejects), is the JSON
  value \<open>null\<close>, or is another JSON value, given by the four properties the client reads
  from it (all four are \<open>JUndefined\<close> for a top-level number, string, boolean or array).
\<close>

datatype json_body = NotJson | JsonNull | JsonValue ESP32FireAlert

datatype fetch_outcome = FetchRejected | Response nat json_body

text \<open>\<open>response.ok\<close> of the Fetch standard: the status is in the range 200 to 299.\<close>

definition response_ok :: "nat \<Rightarrow> bool" where
  "response_ok st \<longleftrightarrow> 200 \<le> st \<and> st \<le> 299"

datatype js_error = TypeError | SyntaxError | HttpError nat | NetworkError

subsection \<open>The JavaScript runtime, as far as the client uses it\<close>

text \<open>
  Built-in functions that depend on the host or render a number as text are parameters of
  the model: \<open>Platform.OS\<close>, the offset of local time from UTC in milliseconds (taken as
  constant), \<open>Number\<close> applied to a string (\<open>None\<close> stands for NaN and for the
  infinities, which the \<open>Date\<close> constructor treats alike), the conversion of a number to
  a string in a template literal, and \<open>toFixed(4)\<close>. The last two are applied to the
  double.
\<close>

record runtime =
  platformOS :: string
  localTZA :: int
  toNumber :: "string \<Rightarrow> real option"
  numberToString :: "real \<Rightarrow> string"
  toFixed4 :: "real \<Rightarrow> string"

text \<open>The conversion to a string that a template literal applies to each value.\<close>

definition toString :: "runtime \<Rightarrow> jsval \<Rightarrow> string" where
  "toString rt v =
     (case v of JUndefined \<Rightarrow> ''undefined'' | JNull \<Rightarrow> ''null''
      | JBool b \<Rightarrow> (if b then ''true'' else ''false'')
      | JNum x \<Rightarrow> numberToString rt (double x) | JStr s \<Rightarrow> s)"

text \<open>
  \<open>toLowerCase\<close> on the letters A to Z; every other character is kept (the severities of
  the wire format are ASCII).
\<close>

definition lowerChar :: "char \<Rightarrow> char" where
  "lowerChar c =
     (case map_of (zip ''ABCDEFGHIJKLMNOPQRSTUVWXYZ'' ''abcdefghijklmnopqrstuvwxyz'') c of
        Some l \<Rightarrow> l | None \<Rightarrow> c)"

definition toLowerCase :: "string \<Rightarrow> string" where
  "toLowerCase s = map lowerChar s"

text \<open>
  \<open>s.split(sep)\<close> for a separator of one character: the pieces between the separators,
  in order, empty pieces included; never the empty list.
\<close>

fun split :: "char \<Rightarrow> string \<Rightarrow> string list" where
  "split sep [] = [[]]"
| "split sep (c # cs) =
     (if c = sep then [] # split sep cs
      else (case split sep cs of p # ps \<Rightarrow> (c # p) # ps | [] \<Rightarrow> [[c]]))"

subsection \<open>Dates\<close>

text \<open>
  A \<open>Date\<close> object is modelled by its time value: milliseconds since the epoch, or
  \<open>None\<close> for NaN (an invalid date). The constructor with five arguments follows
  ECMAScript: each argument is truncated to an integer, a year from 0 to 99 means
  1900 + year, months and days out of range carry over, the result is read as local time
  and clipped to the range of time values. It never throws.
\<close>

type_synonym timevalue = "int option"

definition toIntegerOrInfinity :: "real \<Rightarrow> int" where
  "toIntegerOrInfinity x = (if 0 \<le> x then \<lfloor>x\<rfloor> else \<lceil>x\<rceil>)"

text \<open>
  The day number (days since 1 January 1970) of the first day of month \<open>m\<close> (0 = January)
  of year \<open>y\<close> in the proleptic Gregorian calendar.
\<close>

definition dayOfMonthStart :: "int \<Rightarrow> int \<Rightarrow> int" where
  "dayOfMonthStart y m =
     (let y' = (if m < 2 then y - 1 else y);
          era = y' div 400;
          yoe = y' - era * 400;
          mp = (m + 10) mod 12;
          doy = (153 * mp + 2) div 5;
          doe = yoe * 365 + yoe div 4 - yoe div 100 + doy
      in era * 146097 + doe - 719468)"

definition MakeDay :: "int \<Rightarrow> int \<Rightarrow> int \<Rightarrow> int" where
  "MakeDay year month date =
     (let ym = year + month div 12; mn = month mod 12
      in dayOfMonthStart ym mn + date - 1)"

definition MakeTime :: "int \<Rightarrow> int \<Rightarrow> int \<Rightarrow> int \<Rightarrow> int" where
  "MakeTime hour minute sec ms = hour * 3600000 + minute * 60000 + sec * 1000 + ms"

definition MakeDate :: "int \<Rightarrow> int \<Rightarrow> int" where
  "MakeDate day tm = day * 86400000 + tm"

definition TimeClip :: "int \<Rightarrow> timevalue" where
  "TimeClip t = (if \<bar>t\<bar> > 8640000000000000 then None else Some t)"

definition newDate ::
  "runtime \<Rightarrow> real option \<Rightarrow> real option \<Rightarrow> real option \<Rightarrow> real option \<Rightarrow> real option
     \<Rightarrow> timevalue" where
  "newDate rt year month day hours minutes =
     (case (year, month, day, hours, minutes) of
        (Some y, Some m, Some d, Some h, Some mi) \<Rightarrow>
          (let yi = toIntegerOrInfinity y;
               yr = (if 0 \<le> yi \<and> yi \<le> 99 then 1900 + yi else yi);
               finalDate =
                 MakeDate (MakeDay yr (toIntegerOrInfinity m) (toIntegerOrInfinity d))
                          (MakeTime (toIntegerOrInfinity h) (toIntegerOrInfinity mi) 0 0)
           in TimeClip (finalDate - localTZA rt))
      | _ \<Rightarrow> None)"

text \<open>
  An element of a destructured array: \<open>undefined\<close> past the end. In arithmetic and as an
  argument of \<open>Date\<close>, \<open>undefined\<close> reads as NaN, so both are \<open>None\<close>.
\<close>

definition element :: "real option list \<Rightarrow> nat \<Rightarrow> real option" where
  "element xs i = (if i < length xs then xs ! i else None)"

text \<open>
  The \<open>try\<close> block of \<open>parseESP32Timestamp\<close>. It throws a TypeError where the source
  calls \<open>split\<close> on something that has no such method: a timestamp that is not a string,
  or a missing second piece (\<open>timePart\<close> is \<open>undefined\<close> when the text has no space).
\<close>

definition parseTimestampTry :: "runtime \<Rightarrow> jsval \<Rightarrow> js_error + timevalue" where
  "parseTimestampTry rt timestamp =
     (case timestamp of
        JStr s \<Rightarrow>
          (case split CHR '' '' s of
             datePart # timePart # _ \<Rightarrow>
               (let ymd = map (toNumber rt) (split CHR ''-'' datePart);
                    hm = map (toNumber rt) (split CHR '':'' timePart);
                    year = element ymd 0; month = element ymd 1; day = element ymd 2;
                    hours = element hm 0; minutes = element hm 1
                in Inr (newDate rt year (map_option (\<lambda>m. m - 1) month) day hours minutes))
           | _ \<Rightarrow> Inl TypeError)
      | _ \<Rightarrow> Inl TypeError)"

text \<open>\<open>now\<close> is the reading of the clock (\<open>new Date()\<close>) when the \<open>catch\<close> block runs.\<close>

definition parseESP32Timestamp :: "runtime \<Rightarrow> int \<Rightarrow> jsval \<Rightarrow> timevalue" where
  "parseESP32Timestamp rt now timestamp =
     (case parseTimestampTry rt timestamp of Inr d \<Rightarrow> d | Inl _ \<Rightarrow> Some now)"

subsection \<open>Alerts and the state of the component\<close>

datatype alert_status = Active | Resolved

text \<open>A pair of coordinates: two doubles.\<close>

record coords =
  lat :: real
  lng :: real

text \<open>
  The interface \<open>FireAlert\<close>. Its fields \<open>id\<close>, \<open>severity\<close> and \<open>time\<close> are named
  \<open>alert_id\<close>, \<open>alert_severity\<close> and \<open>alert_time\<close> here.
\<close>

record FireAlert =
  alert_id :: int
  alert_severity :: string
  location :: string
  coordinates :: coords
  alert_time :: timevalue
  status :: alert_status

subsection \<open>Notification dispatch\<close>

datatype AndroidNotificationPriority =
  PriorityMin | PriorityLow | PriorityDefault | PriorityHigh | PriorityMax

record profile =
  title :: string
  body :: string
  sound :: bool
  priority :: AndroidNotificationPriority

text \<open>
  The four titles end with the same nine bytes, which is how the source file stores the
  flame sign.
\<close>

definition flameSign :: string where
  "flameSign = [CHR 0xC3, CHR 0xB0, CHR 0xC5, CHR 0xB8, CHR 0xE2, CHR 0x80, CHR 0x9D,
                CHR 0xC2, CHR 0xA5]"

text \<open>The object literal \<open>severityConfig\<close>: its own properties, in the order written.\<close>

definition severityConfig :: "FireAlert \<Rightarrow> (string \<times> profile) list" where
  "severityConfig alert =
     [(''low'',
         \<lparr>title = ''Fire Alert - LOW '' @ flameSign,
          body = ''Weak flame detected at '' @ location alert,
          sound = True, priority = PriorityDefault\<rparr>),
      (''moderate'',
         \<lparr>title = ''Fire Alert - MODERATE '' @ flameSign,
          body = ''Moderate flame detected at '' @ location alert,
          sound = True, priority = PriorityHigh\<rparr>),
      (''high'',
         \<lparr>title = ''Fire Alert - HIGH '' @ flameSign,
          body = ''Strong flame detected at '' @ location alert,
          sound = True, priority = PriorityHigh\<rparr>),
      (''extreme'',
         \<lparr>title = ''EMERGENCY - EXTREME FIRE ALERT '' @ flameSign,
          body = ''CRITICAL: Extreme flame detected at '' @ location alert,
          sound = True, priority = PriorityMax\<rparr>)]"

text \<open>
  Reading a property of an object literal by a string key finds an own property first and
  a property of \<open>Object.prototype\<close> next. These are the names ECMAScript defines there
  (Annex B included); what is found under them is a function or an object, so it is truthy
  and has no \<open>title\<close>, \<open>body\<close> or \<open>sound\<close> of its own.
\<close>

definition objectPrototypeKeys :: "string list" where
  "objectPrototypeKeys =
     [''constructor'', ''__proto__'', ''hasOwnProperty'', ''isPrototypeOf'',
      ''propertyIsEnumerable'', ''toLocaleString'', ''toString'', ''valueOf'',
      ''__defineGetter__'', ''__defineSetter__'', ''__lookupGetter__'', ''__lookupSetter__'']"

datatype config = Profile profile | Inherited

text \<open>\<open>severityConfig[alert.severity] || severityConfig.low\<close>\<close>

definition selectConfig :: "FireAlert \<Rightarrow> config" where
  "selectConfig alert =
     (case map_of (severityConfig alert) (alert_severity alert) of
        Some p \<Rightarrow> Profile p
      | None \<Rightarrow>
          if alert_severity alert \<in> set objectPrototypeKeys then Inherited
          else (case map_of (severityConfig alert) ''low'' of
                  Some p \<Rightarrow> Profile p | None \<Rightarrow> Inherited))"

text \<open>
  The request handed to \<open>Notifications.scheduleNotificationAsync\<close>: the properties of
  its \<open>content\<close> object, in the order written, and the trigger (\<open>null\<close>: at once).
\<close>

datatype content_value =
  Text string | Flag bool | Undefined | AlertData int string coords

record notification_request =
  content :: "(string \<times> content_value) list"
  trigger :: "nat option"

definition triggerFireAlertNotification :: "FireAlert \<Rightarrow> notification_request" where
  "triggerFireAlertNotification alert =
     (let config = selectConfig alert
      in \<lparr>content =
            [(''title'', case config of Profile p \<Rightarrow> Text (title p) | Inherited \<Rightarrow> Undefined),
             (''body'', case config of Profile p \<Rightarrow> Text (body p) | Inherited \<Rightarrow> Undefined),
             (''sound'', case config of Profile p \<Rightarrow> Flag (sound p) | Inherited \<Rightarrow> Undefined),
             (''data'',
                AlertData (alert_id alert) (alert_severity alert) (coordinates alert))],
          trigger = None\<rparr>)"

subsection \<open>State\<close>

text \<open>
  The state hooks and the timer reference of the component that the poller and the test
  generator read or write, and \<open>notifications\<close>: the requests issued so far to the
  notification facility, oldest first.
\<close>

record app_state =
  alerts :: "FireAlert list"
  showAlert :: "FireAlert option"
  esp32IpAddress :: string
  isPolling :: bool
  lastAlertHash :: string
  pollingIntervalRef :: "nat option"
  notifications :: "notification_request list"

subsection \<open>The poller and the deduplicator\<close>

definition alertHash :: "runtime \<Rightarrow> ESP32FireAlert \<Rightarrow> string" where
  "alertHash rt data =
     toString rt (severity data) @ ''-'' @ toString rt (latitude data) @ ''-''
       @ toString rt (longitude data) @ ''-'' @ toString rt (time data)"

text \<open>
  The object literal \<open>newAlert\<close>. \<open>toLowerCase\<close> exists on strings only and \<open>toFixed\<close> on
  numbers only; on any other value the call throws a TypeError. The coordinates are the
  doubles read from the body.
\<close>

definition newAlertObject ::
  "runtime \<Rightarrow> int \<Rightarrow> ESP32FireAlert \<Rightarrow> timevalue \<Rightarrow> js_error + FireAlert" where
  "newAlertObject rt now data alertTime =
     (case severity data of
        JStr sev \<Rightarrow>
          (case latitude data of
             JNum la \<Rightarrow>
               (case longitude data of
                  JNum lo \<Rightarrow>
                    Inr \<lparr>alert_id = now,
                         alert_severity = toLowerCase sev,
                         location =
                           ''GPS: '' @ toFixed4 rt (double la) @ '', '' @ toFixed4 rt (double lo),
                         coordinates = \<lparr>lat = double la, lng = double lo\<rparr>,
                         alert_time = alertTime,
                         status = Active\<rparr>
                | _ \<Rightarrow> Inl TypeError)
           | _ \<Rightarrow> Inl TypeError)
      | _ \<Rightarrow> Inl TypeError)"

text \<open>
  \<open>Math.abs(x - y) < 0.0001\<close> on two doubles: the difference is rounded to a double and
  compared with the double nearest to 0.0001.
\<close>

definition withinTolerance :: "real \<Rightarrow> real \<Rightarrow> bool" where
  "withinTolerance x y \<longleftrightarrow> \<bar>double (x - y)\<bar> < double 0.0001"

text \<open>The test of \<open>prevAlerts.some\<close>.\<close>

definition sameFire :: "FireAlert \<Rightarrow> FireAlert \<Rightarrow> bool" where
  "sameFire newAlert alert \<longleftrightarrow>
     withinTolerance (lat (coordinates alert)) (lat (coordinates newAlert)) \<and>
     withinTolerance (lng (coordinates alert)) (lng (coordinates newAlert)) \<and>
     status alert = Active"

text \<open>
  The updater passed to \<open>setAlerts\<close>, with the calls it makes, applied once to the
  current list of alerts.
\<close>

definition addAlert :: "FireAlert \<Rightarrow> app_state \<Rightarrow> app_state" where
  "addAlert newAlert st =
     (let prevAlerts = alerts st;
          exists = list_ex (sameFire newAlert) prevAlerts
      in if \<not> exists
         then st\<lparr>notifications := notifications st @ [triggerFireAlertNotification newAlert],
                 showAlert := Some newAlert,
                 alerts := newAlert # prevAlerts\<rparr>
         else st)"

text \<open>
  \<open>pollESP32Endpoint\<close> is a function of one render of the component: the
  \<open>lastAlertHash\<close> it compares with is the value that hook had in that render, while
  \<open>setLastAlertHash\<close> stores into the hook. The argument \<open>seen\<close> is the value the call
  compares with. It is the stored value when the function of the latest render is called;
  the interval timer keeps calling the function it was started with, and the effect that
  starts it runs again only when the address changes, so a timer tick may compare with an
  older value. The address is the stored one for that reason.

  The \<open>try\<close> block: the state it leaves and how it ends (it throws, the snapshot
  reports no fire, the fingerprint is the one compared with, or the snapshot is processed
  up to the call of \<open>setAlerts\<close>). A state update made before a throw stays. \<open>now\<close> is
  the reading of the clock during the tick.
\<close>

datatype try_end = Threw js_error | NoFire | SameFingerprint | Processed

definition pollTry ::
  "runtime \<Rightarrow> string \<Rightarrow> fetch_outcome \<Rightarrow> int \<Rightarrow> app_state
     \<Rightarrow> app_state \<times> try_end" where
  "pollTry rt seen outcome now st =
     (case outcome of
        FetchRejected \<Rightarrow> (st, Threw NetworkError)
      | Response code json \<Rightarrow>
          if \<not> response_ok code then (st, Threw (HttpError code))
          else
            (case json of
               NotJson \<Rightarrow> (st, Threw SyntaxError)
             | JsonNull \<Rightarrow> (st, Threw TypeError)
             | JsonValue data \<Rightarrow>
                 if truthy (severity data) \<and> severity data \<noteq> JStr ''NONE'' then
                   (let hash = alertHash rt data
                    in if hash \<noteq> seen then
                         (let st1 = st\<lparr>lastAlertHash := hash\<rparr>;
                              alertTime = parseESP32Timestamp rt now (time data)
                          in case newAlertObject rt now data alertTime of
                               Inl e \<Rightarrow> (st1, Threw e)
                             | Inr newAlert \<Rightarrow> (addAlert newAlert st1, Processed))
                       else (st, SameFingerprint))
                 else (st, NoFire)))"

text \<open>
  The whole function: the guard, then the \<open>try\<close> block under a \<open>catch\<close> that does
  nothing. The second component is the error that leaves the function: none.
\<close>

definition pollESP32Endpoint ::
  "runtime \<Rightarrow> string \<Rightarrow> fetch_outcome \<Rightarrow> int \<Rightarrow> app_state
     \<Rightarrow> app_state \<times> js_error option" where
  "pollESP32Endpoint rt seen outcome now st =
     (if esp32IpAddress st = [] \<or> platformOS rt = ''web'' then (st, None)
      else (case pollTry rt seen outcome now st of (st', _) \<Rightarrow> (st', None)))"

text \<open>
  The interval timer set by \<open>startPolling\<close> calls \<open>pollESP32Endpoint\<close> each time it
  fires, as long as \<open>stopPolling\<close> has not cleared it. A tick is given by the fingerprint
  the call compares with, the outcome of its fetch and the clock reading; \<open>pollTicks\<close>
  runs one call per tick.
\<close>

type_synonym tick = "string \<times> fetch_outcome \<times> int"

text \<open>
  \<open>startPolling\<close> clears the timer that is set, if any, and sets a new one, \<open>handle\<close>;
  the call of \<open>pollESP32Endpoint\<close> it makes in between is a tick like the timer's and is
  left to \<open>pollTicks\<close>.
\<close>

definition startPolling :: "nat \<Rightarrow> app_state \<Rightarrow> app_state" where
  "startPolling handle st = st\<lparr>isPolling := True, pollingIntervalRef := Some handle\<rparr>"

definition stopPolling :: "app_state \<Rightarrow> app_state" where
  "stopPolling st = st\<lparr>pollingIntervalRef := None, isPolling := False\<rparr>"

definition intervalFires :: "runtime \<Rightarrow> tick \<Rightarrow> app_state \<Rightarrow> app_state" where
  "intervalFires rt tick st =
     (case pollingIntervalRef st of
        None \<Rightarrow> st
      | Some _ \<Rightarrow>
          (case tick of (seen, outcome, now) \<Rightarrow> fst (pollESP32Endpoint rt seen outcome now st)))"

fun pollTicks :: "runtime \<Rightarrow> tick list \<Rightarrow> app_state \<Rightarrow> app_state" where
  "pollTicks rt [] st = st"
| "pollTicks rt (tick # ticks) st = pollTicks rt ticks (intervalFires rt tick st)"

text \<open>
  \<open>startPolling\<close> is called only from the effect that runs when the component mounts and
  when the address changes. The timer it sets, like the call it makes itself, uses the
  \<open>pollESP32Endpoint\<close> of the render in which the effect ran, so every tick of that timer
  compares with the \<open>lastAlertHash\<close> of that render: \<open>timerTick started\<close> is a tick of
  the timer set in the state \<open>started\<close>.
\<close>

definition timerTick :: "app_state \<Rightarrow> fetch_outcome \<times> int \<Rightarrow> tick" where
  "timerTick started response = (lastAlertHash started, fst response, snd response)"

text \<open>
  The button that clears the alert history: \<open>setAlerts([])\<close> and \<open>setShowAlert(null)\<close>
  (and the alert selected for the map, which the state here does not hold, is reset).
\<close>

definition clearAlertHistory :: "app_state \<Rightarrow> app_state" where
  "clearAlertHistory st = st\<lparr>alerts := [], showAlert := None\<rparr>"

subsection \<open>The test generator\<close>

definition testLocations :: "(real \<times> real \<times> string) list" where
  "testLocations =
     [(16.6542, 120.3456, ''Bacolod City''),
      (16.8850, 120.2726, ''Negros Occidental''),
      (16.4247, 120.5988, ''Antique Province''),
      (16.9974, 120.6821, ''Aklan Province''),
      (16.5952, 120.1949, ''Silay City''),
      (16.7471, 120.4097, ''Cadiz City''),
      (16.5453, 120.6236, ''Iloilo City'')]"

definition severities :: "string list" where
  "severities = [''low'', ''moderate'', ''high'', ''extreme'']"

text \<open>
  \<open>generateTestFireAlert\<close> draws four numbers with \<open>Math.random()\<close>, each a double in
  the interval from 0 (included) to 1 (excluded): \<open>r1\<close> to \<open>r4\<close>, in the order of the
  calls. The model is defined for draws that give indices inside the two tables
  (\<open>None\<close> otherwise). Every literal and every operation gives a double.
\<close>

definition generateTestFireAlert ::
  "real \<Rightarrow> real \<Rightarrow> real \<Rightarrow> real \<Rightarrow> int \<Rightarrow> app_state \<Rightarrow> app_state option" where
  "generateTestFireAlert r1 r2 r3 r4 now st =
     (if 0 \<le> r1 \<and> r1 < 1 \<and> 0 \<le> r2 \<and> r2 < 1 \<and> 0 \<le> r3 \<and> r3 < 1 \<and> 0 \<le> r4 \<and> r4 < 1 \<and>
         nat \<lfloor>double (r1 * real (length testLocations))\<rfloor> < length testLocations \<and>
         nat \<lfloor>double (r2 * real (length severities))\<rfloor> < length severities then
        (let loc = testLocations ! nat \<lfloor>double (r1 * real (length testLocations))\<rfloor>;
             sev = severities ! nat \<lfloor>double (r2 * real (length severities))\<rfloor>;
             newAlert =
               \<lparr>alert_id = now,
                alert_severity = sev,
                location = snd (snd loc) @ '' (SIM)'',
                coordinates =
                  \<lparr>lat = double (double (fst loc) + double (double (r3 - 0.5) * double 0.02)),
                   lng = double (double (fst (snd loc))
                                  + double (double (r4 - 0.5) * double 0.02))\<rparr>,
                alert_time = Some now,
                status = Active\<rparr>
         in Some (st\<lparr>alerts := newAlert # alerts st,
                      showAlert := Some newAlert,
                      notifications :=
                        notifications st @ [triggerFireAlertNotification newAlert]\<rparr>))
      else None)"

subsection \<open>A runtime to evaluate with\<close>

text \<open>
  A concrete runtime for examples: Android, local time eight hours ahead of UTC,
  \<open>Number\<close> on strings of decimal digits (the empty string reads as 0, anything else as
  NaN), and numbers rendered with a fixed count of decimals, rounded half up.
\<close>

definition digitValue :: "char \<Rightarrow> nat option" where
  "digitValue c =
     (let n = of_char c :: nat in if 48 \<le> n \<and> n \<le> 57 then Some (n - 48) else None)"

fun digitsValue :: "nat \<Rightarrow> string \<Rightarrow> nat option" where
  "digitsValue acc [] = Some acc"
| "digitsValue acc (c # cs) =
     (case digitValue c of None \<Rightarrow> None | Some d \<Rightarrow> digitsValue (10 * acc + d) cs)"

definition decimalNumber :: "string \<Rightarrow> real option" where
  "decimalNumber s = map_option real (digitsValue 0 s)"

definition padLeft :: "nat \<Rightarrow> string \<Rightarrow> string" where
  "padLeft k s = replicate (k - length s) CHR ''0'' @ s"

definition fixedDecimals :: "nat \<Rightarrow> real \<Rightarrow> string" where
  "fixedDecimals k x =
     (let n = nat \<lfloor>\<bar>x\<bar> * 10 ^ k + 1 / 2\<rfloor>
      in (if x < 0 \<and> 0 < n then ''-'' else '''')
         @ decimal (n div 10 ^ k) @ ''.'' @ padLeft k (decimal (n mod 10 ^ k)))"

definition exampleRuntime :: runtime where
  "exampleRuntime =
     \<lparr>platformOS = ''android'', localTZA = 28800000, toNumber = decimalNumber,
      numberToString = fixedDecimals 6, toFixed4 = fixedDecimals 4\<rparr>"

text \<open>
  The state of a freshly mounted component (the initial values of the hooks), and the
  snapshot of the scenario in the specification, received at two consecutive ticks.
\<close>

definition initialState :: app_state where
  "initialState =
     \<lparr>alerts = [], showAlert = None, esp32IpAddress = ''192.168.1.100'', isPolling = False,
      lastAlertHash = '''', pollingIntervalRef = None, notifications = []\<rparr>"

definition exampleSnapshot :: ESP32FireAlert where
  "exampleSnapshot =
     \<lparr>severity = JStr ''HIGH'', time = JStr ''2026-01-22 21:35'',
      latitude = JNum 16.615, longitude = JNum 120.316\<rparr>"

text \<open>
  Later snapshots of a stronger flame: one 0.00005 degrees from the first in both axes,
  one 0.0001 degrees north of it as written, one 0.0001 degrees south of it as written,
  and one 0.0002 degrees north of it.
\<close>

definition nearbySnapshot :: ESP32FireAlert where
  "nearbySnapshot =
     \<lparr>severity = JStr ''EXTREME'', time = JStr ''2026-01-22 21:36'',
      latitude = JNum 16.61505, longitude = JNum 120.31605\<rparr>"

definition distantSnapshot :: ESP32FireAlert where
  "distantSnapshot =
     \<lparr>severity = JStr ''EXTREME'', time = JStr ''2026-01-22 21:36'',
      latitude = JNum 16.6151, longitude = JNum 120.316\<rparr>"

definition southSnapshot :: ESP32FireAlert where
  "southSnapshot =
     \<lparr>severity = JStr ''EXTREME'', time = JStr ''2026-01-22 21:36'',
      latitude = JNum 16.6149, longitude = JNum 120.316\<rparr>"

definition farSnapshot :: ESP32FireAlert where
  "farSnapshot =
     \<lparr>severity = JStr ''EXTREME'', time = JStr ''2026-01-22 21:36'',
      latitude = JNum 16.6152, longitude = JNum 120.316\<rparr>"

subsection \<open>Kinds of ticks\<close>

text \<open>
  A fetch fails when the promise rejects, the status is not in the range 200 to 299, or the
  body is not JSON or is the JSON value \<open>null\<close>: these are the ticks whose \<open>try\<close> block
  throws before it looks at a snapshot.
\<close>

fun fetchFails :: "fetch_outcome \<Rightarrow> bool" where
  "fetchFails FetchRejected = True"
| "fetchFails (Response code json) = (\<not> response_ok code \<or> json = NotJson \<or> json = JsonNull)"

definition failedTick :: "tick \<Rightarrow> bool" where
  "failedTick tick = fetchFails (fst (snd tick))"

text \<open>
  A parsed body cannot become an alert when its severity is not a string, or its latitude
  or longitude is not a number.
\<close>

definition unusableSnapshot :: "ESP32FireAlert \<Rightarrow> bool" where
  "unusableSnapshot data \<longleftrightarrow>
     (case severity data of JStr _ \<Rightarrow> False | _ \<Rightarrow> True) \<or>
     (case latitude data of JNum _ \<Rightarrow> False | _ \<Rightarrow> True) \<or>
     (case longitude data of JNum _ \<Rightarrow> False | _ \<Rightarrow> True)"

text \<open>A tick whose response is a snapshot with severity NONE.\<close>

definition reportsNone :: "tick \<Rightarrow> bool" where
  "reportsNone tick =
     (case fst (snd tick) of
        Response code (JsonValue data) \<Rightarrow> severity data = JStr ''NONE''
      | _ \<Rightarrow> False)"

text \<open>
  The initial state once \<open>startPolling\<close> has set its interval timer (handle 1), and a
  snapshot that reports no flame.
\<close>

definition pollingState :: app_state where
  "pollingState = startPolling 1 initialState"

definition noneSnapshot :: ESP32FireAlert where
  "noneSnapshot =
     \<lparr>severity = JStr ''NONE'', time = JStr ''2026-01-22 21:36'',
      latitude = JNum 16.615, longitude = JNum 120.316\<rparr>"

text \<open>A body that parses as JSON and lacks both coordinates.\<close>

definition truncatedSnapshot :: ESP32FireAlert where
  "truncatedSnapshot =
     \<lparr>severity = JStr ''HIGH'', time = JStr ''2026-01-22 21:35'',
      latitude = JUndefined, longitude = JUndefined\<rparr>"

section \<open>Doubles\<close>

text \<open>
  The equation of \<open>bitLength\<close> applies to every argument; as a rewrite rule it is kept
  to literal numbers.
\<close>

declare bitLength.simps [simp del]

lemma bitLength_numeral [simp]:
  "bitLength (numeral k) = Suc (bitLength (numeral k div 2))"
  by (simp add: bitLength.simps [of "numeral k"])

lemma bitLength_0 [simp]: "bitLength 0 = 0"
  by (simp add: bitLength.simps)

lemma bitLength_1 [simp]: "bitLength (Suc 0) = 1"
  by (simp add: bitLength.simps [of "Suc 0"])

text \<open>The doubles of the decimals used in the examples.\<close>

lemma double_examples:
  "double (3323 / 200) = 4676706738047549 / 281474976710656"
  "double (30079 / 250) = 4233242912239911 / 35184372088832"
  "double (332301 / 20000) = 4676720811796385 / 281474976710656"
  "double (2406321 / 20000) = 8466489342917031 / 70368744177664"
  "double (166151 / 10000) = 4676734885545221 / 281474976710656"
  "double (166149 / 10000) = 2338339295274939 / 140737488355328"
  "double (20769 / 1250) = 1169190758260723 / 70368744177664"
  "double (83271 / 5000) = 4687740557134607 / 281474976710656"
  "double (1 / 50) = 5764607523034235 / 288230376151711744"
  by (simp_all add: double_def ilog2_def roundHalfEven_def Let_def power_int_minus)

lemma double_of_double_examples:
  "double (4687740557134607 / 281474976710656) = 4687740557134607 / 281474976710656"
  "double (4676706738047549 / 281474976710656) = 4676706738047549 / 281474976710656"
  by (simp_all add: double_def ilog2_def roundHalfEven_def Let_def power_int_minus)

lemma double_tolerance: "double (1 / 10000) = 7378697629483821 / 73786976294838206464"
  by (simp add: double_def ilog2_def roundHalfEven_def Let_def power_int_minus)

subsection \<open>The error of rounding\<close>

lemma bitLength_bounds:
  "0 < n \<Longrightarrow> 2 ^ (bitLength n - 1) \<le> n \<and> n < 2 ^ bitLength n"
proof (induction n rule: bitLength.induct)
  case (1 n)
  show ?case
  proof (cases "n div 2 = 0")
    case True
    with "1.prems" have "n = 1" by (cases n) auto
    then show ?thesis by (simp add: bitLength.simps [of "Suc 0"] bitLength.simps [of 0])
  next
    case False
    then have pos: "0 < n div 2" by simp
    from "1.IH" [OF _ pos] "1.prems"
    have ih: "2 ^ (bitLength (n div 2) - 1) \<le> n div 2" "n div 2 < 2 ^ bitLength (n div 2)"
      by auto
    have bl: "bitLength n = Suc (bitLength (n div 2))"
      using "1.prems" by (simp add: bitLength.simps [of n])
    have blpos: "0 < bitLength (n div 2)"
      using pos by (simp add: bitLength.simps [of "n div 2"])
    then obtain k where k: "bitLength (n div 2) = Suc k"
      by (cases "bitLength (n div 2)") auto
    from ih k have "2 * 2 ^ k \<le> n" "n < 2 * 2 ^ Suc k"
      by auto
    then show ?thesis
      by (simp add: bl k)
  qed
qed

lemma bitLength_pos: "0 < n \<Longrightarrow> 0 < bitLength n"
  by (simp add: bitLength.simps [of n])

lemma real_succ_le_pow2: "n < 2 ^ m \<Longrightarrow> real n + 1 \<le> 2 ^ m"
proof -
  assume "n < 2 ^ m"
  then have "Suc n \<le> 2 ^ m"
    by simp
  then have "real (Suc n) \<le> real (2 ^ m)"
    by (rule of_nat_mono)
  then show ?thesis
    by simp
qed

lemma pow2_le_real: "2 ^ m \<le> n \<Longrightarrow> (2::real) ^ m \<le> real n"
proof -
  assume "2 ^ m \<le> n"
  then have "real (2 ^ m) \<le> real n"
    by (rule of_nat_mono)
  then show ?thesis
    by simp
qed

lemma powi_int_Suc: "(2::real) powi (int c + 1) = 2 ^ Suc c"
proof -
  have "int c + 1 = int (Suc c)"
    by simp
  then show ?thesis
    by (simp only: power_int_of_nat)
qed

lemma powi_neg_Suc: "(2::real) powi (- int (Suc c)) = 1 / 2 ^ Suc c"
  by (simp only: power_int_minus_divide power_int_of_nat)

lemma powi_neg_Suc_plus: "(2::real) powi (- int (Suc c) + 1) = 1 / 2 ^ c"
proof -
  have "- int (Suc c) + 1 = - int c"
    by simp
  then show ?thesis
    by (simp only: power_int_minus_divide power_int_of_nat)
qed

lemma ilog2_bounds:
  assumes "0 < x"
  shows "2 powi (ilog2 x) \<le> x" and "x < 2 powi (ilog2 x + 1)"
proof -
  have "2 powi (ilog2 x) \<le> x \<and> x < 2 powi (ilog2 x + 1)"
  proof (cases "1 \<le> x")
    case True
    define n where "n = nat \<lfloor>x\<rfloor>"
    define b where "b = bitLength n"
    from True have npos: "0 < n"
      by (simp add: n_def)
    have nx: "real n \<le> x" "x < real n + 1"
      using True by (simp_all add: n_def)
    from bitLength_bounds [OF npos]
    have bb: "2 ^ (b - 1) \<le> n" "n < 2 ^ b"
      by (simp_all add: b_def)
    from bitLength_pos [OF npos] obtain c where c: "b = Suc c"
      by (cases b) (auto simp: b_def)
    have il: "ilog2 x = int c"
      using True by (simp add: ilog2_def n_def [symmetric] b_def [symmetric] c)
    have lo: "(2::real) ^ c \<le> real n"
      using bb(1) by (intro pow2_le_real) (simp add: c)
    have hi: "real n + 1 \<le> 2 ^ Suc c"
      using bb(2) unfolding c by (rule real_succ_le_pow2)
    have p1: "(2::real) powi (int c) = 2 ^ c"
      by (simp only: power_int_of_nat)
    from nx lo hi show ?thesis
      unfolding il p1 powi_int_Suc by linarith
  next
    case False
    define y where "y = 1 / x"
    define k where "k = nat (\<lceil>y\<rceil> - 1)"
    define b where "b = bitLength k"
    from False assms have y1: "1 < y"
      by (simp add: y_def)
    then have c2: "2 \<le> \<lceil>y\<rceil>"
      by linarith
    then have kpos: "0 < k"
      by (simp add: k_def)
    have ky: "real k < y" "y \<le> real k + 1"
      using c2 by (auto simp: k_def) linarith+
    from bitLength_bounds [OF kpos]
    have bb: "2 ^ (b - 1) \<le> k" "k < 2 ^ b"
      by (simp_all add: b_def)
    from bitLength_pos [OF kpos] obtain c where c: "b = Suc c"
      by (cases b) (auto simp: b_def)
    have il: "ilog2 x = - int (Suc c)"
      using False by (simp add: ilog2_def y_def [symmetric] k_def [symmetric] b_def [symmetric] c)
    have lo: "(2::real) ^ c \<le> real k"
      using bb(1) by (intro pow2_le_real) (simp add: c)
    have hi: "real k + 1 \<le> 2 ^ Suc c"
      using bb(2) unfolding c by (rule real_succ_le_pow2)
    have x_is: "x = 1 / y"
      by (simp add: y_def)
    have ypos: "0 < y"
      using y1 by simp
    have le: "y \<le> 2 ^ Suc c"
      using ky(2) hi by linarith
    have lt: "2 ^ c < y"
      using ky(1) lo by linarith
    have a: "1 / 2 ^ Suc c \<le> 1 / y"
      using le ypos by (intro divide_left_mono) simp_all
    have b': "1 / y < 1 / 2 ^ c"
      using lt ypos by (intro divide_strict_left_mono) simp_all
    have p1: "2 powi (ilog2 x) = 1 / (2::real) ^ Suc c"
      by (simp only: il powi_neg_Suc)
    have p2: "2 powi (ilog2 x + 1) = 1 / (2::real) ^ c"
      by (simp only: il powi_neg_Suc_plus)
    from a b' show ?thesis
      unfolding p1 p2 by (simp only: x_is)
  qed
  then show "2 powi (ilog2 x) \<le> x" and "x < 2 powi (ilog2 x + 1)"
    by simp_all
qed

lemma roundHalfEven_error: "\<bar>of_int (roundHalfEven y) - y\<bar> \<le> 1 / 2"
  unfolding roundHalfEven_def Let_def
  by (auto simp: abs_le_iff)

lemma double_0 [simp]: "double 0 = 0"
  by (simp add: double_def)

lemma double_minus: "double (- x) = - double x"
  by (simp add: double_def Let_def sgn_minus)

text \<open>The error of rounding is at most half the spacing of the doubles around the number.\<close>

lemma double_error:
  "\<bar>double x - x\<bar> \<le> 2 powi (max (ilog2 \<bar>x\<bar>) (- 1022) - 53)"
proof (cases "x = 0")
  case True
  then show ?thesis by simp
next
  case False
  define e where "e = max (ilog2 \<bar>x\<bar>) (- 1022) - 52"
  define m where "m = roundHalfEven (\<bar>x\<bar> / 2 powi e)"
  have pe: "0 < (2::real) powi e"
    by simp
  have d: "double x = sgn x * of_int m * 2 powi e"
    using False by (simp add: double_def Let_def e_def m_def)
  have "\<bar>of_int m - \<bar>x\<bar> / 2 powi e\<bar> \<le> 1 / 2"
    unfolding m_def by (rule roundHalfEven_error)
  then have "\<bar>of_int m - \<bar>x\<bar> / 2 powi e\<bar> * 2 powi e \<le> 1 / 2 * 2 powi e"
    using pe by (intro mult_right_mono) simp_all
  moreover have eq: "(of_int m - \<bar>x\<bar> / 2 powi e) * 2 powi e = of_int m * 2 powi e - \<bar>x\<bar>"
    using pe by (simp add: left_diff_distrib)
  have "\<bar>of_int m * 2 powi e - \<bar>x\<bar>\<bar> = \<bar>of_int m - \<bar>x\<bar> / 2 powi e\<bar> * 2 powi e"
    by (simp only: eq [symmetric] abs_mult abs_of_pos [OF pe])
  ultimately have "\<bar>of_int m * 2 powi e - \<bar>x\<bar>\<bar> \<le> 1 / 2 * 2 powi e"
    by simp
  moreover have "\<bar>double x - x\<bar> = \<bar>of_int m * 2 powi e - \<bar>x\<bar>\<bar>"
  proof (cases "0 < x")
    case True
    then show ?thesis by (simp add: d)
  next
    case neg: False
    with False have "x < 0" by simp
    then show ?thesis
      by (simp add: d abs_if)
  qed
  moreover have "1 / 2 * (2::real) powi e = 2 powi (max (ilog2 \<bar>x\<bar>) (- 1022) - 53)"
  proof -
    have e53: "max (ilog2 \<bar>x\<bar>) (- 1022) - 53 = e - 1"
      by (simp add: e_def)
    have h: "(2::real) powi (e - 1) * 2 = 2 powi e"
      by (rule power_int_minus_mult) simp
    show ?thesis
      unfolding e53 h [symmetric] by simp
  qed
  ultimately show ?thesis
    by simp
qed

lemma ilog2_less:
  assumes "0 < x" "x < 2 powi n"
  shows "ilog2 x < n"
proof (rule ccontr)
  assume "\<not> ilog2 x < n"
  then have "n \<le> ilog2 x" by simp
  then have "(2::real) powi n \<le> 2 powi (ilog2 x)"
    by (intro power_int_increasing) simp_all
  with ilog2_bounds(1) [OF assms(1)] assms(2) show False
    by linarith
qed

text \<open>Numbers below 512 in magnitude are rounded with an error of at most \<open>2 powi (- 45)\<close>.\<close>

lemma double_error_512:
  assumes "\<bar>x\<bar> < 512"
  shows "\<bar>double x - x\<bar> \<le> 2 powi (- 45)"
proof (cases "x = 0")
  case True
  then show ?thesis by simp
next
  case False
  then have pos: "0 < \<bar>x\<bar>" by simp
  have "\<bar>x\<bar> < 2 powi 9"
    using assms by simp
  from ilog2_less [OF pos this] have "max (ilog2 \<bar>x\<bar>) (- 1022) - 53 \<le> - 45"
    by simp
  then have "(2::real) powi (max (ilog2 \<bar>x\<bar>) (- 1022) - 53) \<le> 2 powi (- 45)"
    by (intro power_int_increasing) simp_all
  with double_error [of x] show ?thesis
    by linarith
qed

subsection \<open>The proximity test\<close>

lemma withinTolerance_refl: "withinTolerance x x"
  by (simp add: withinTolerance_def double_tolerance)

lemma withinTolerance_sym: "withinTolerance x y \<longleftrightarrow> withinTolerance y x"
proof -
  have "double (x - y) = - double (y - x)"
    using double_minus [of "y - x"] by simp
  then show ?thesis
    by (simp add: withinTolerance_def)
qed

lemma withinTolerance_examples:
  "withinTolerance (double 16.615) (double 16.6149)"
  "withinTolerance (double 16.615) (double 16.61505)"
  "withinTolerance (double 120.316) (double 120.31605)"
  "\<not> withinTolerance (double 16.615) (double 16.6151)"
  "\<not> withinTolerance (double 16.615) (double 16.6152)"
  by (simp_all add: withinTolerance_def double_examples double_tolerance)
    (simp_all add: double_def ilog2_def roundHalfEven_def Let_def power_int_minus)

text \<open>
  Two numbers as written, each below 200 in magnitude: the test on their doubles
  succeeds when they differ by at most 0.0000999 and fails when they differ by at least
  0.0001001.
\<close>

lemma withinTolerance_margin:
  assumes a: "\<bar>a\<bar> \<le> 200" and b: "\<bar>b\<bar> \<le> 200"
  shows "\<bar>a - b\<bar> \<le> 0.0000999 \<Longrightarrow> withinTolerance (double a) (double b)"
    and "0.0001001 \<le> \<bar>a - b\<bar> \<Longrightarrow> \<not> withinTolerance (double a) (double b)"
proof -
  define u where "u = (2::real) powi (- 45)"
  have u: "u = 1 / 35184372088832"
    by (simp add: u_def power_int_minus)
  have ea: "\<bar>double a - a\<bar> \<le> u"
    unfolding u_def using a by (intro double_error_512) simp
  have eb: "\<bar>double b - b\<bar> \<le> u"
    unfolding u_def using b by (intro double_error_512) simp
  have da: "\<bar>double a\<bar> \<le> 201"
    using ea a u by linarith
  have db: "\<bar>double b\<bar> \<le> 201"
    using eb b u by linarith
  have ed: "\<bar>double (double a - double b) - (double a - double b)\<bar> \<le> u"
    unfolding u_def using da db by (intro double_error_512) linarith
  have total: "\<bar>double (double a - double b) - (a - b)\<bar> \<le> 3 * u"
    using ea eb ed by linarith
  show "\<bar>a - b\<bar> \<le> 0.0000999 \<Longrightarrow> withinTolerance (double a) (double b)"
  proof -
    assume "\<bar>a - b\<bar> \<le> 0.0000999"
    with total have "\<bar>double (double a - double b)\<bar> \<le> 0.0000999 + 3 * u"
      by linarith
    also have "\<dots> < double (1 / 10000)"
      by (simp add: u double_tolerance)
    finally show ?thesis
      by (simp add: withinTolerance_def)
  qed
  show "0.0001001 \<le> \<bar>a - b\<bar> \<Longrightarrow> \<not> withinTolerance (double a) (double b)"
  proof -
    assume "0.0001001 \<le> \<bar>a - b\<bar>"
    with total have "0.0001001 - 3 * u \<le> \<bar>double (double a - double b)\<bar>"
      by linarith
    moreover have "double (1 / 10000) \<le> 0.0001001 - 3 * u"
      by (simp add: u double_tolerance)
    ultimately show ?thesis
      by (simp add: withinTolerance_def)
  qed
qed

section \<open>Evaluation of the number renderings\<close>

text \<open>
  The equation of \<open>decimal\<close> applies to every argument; as a rewrite rule it is kept
  to literal numbers.
\<close>

declare decimal.simps [simp del]

lemma decimal_numeral [simp]:
  "decimal (numeral k) =
     (if (numeral k :: nat) < 10 then [''0123456789'' ! numeral k]
      else decimal (numeral k div 10) @ [''0123456789'' ! (numeral k mod 10)])"
  by (rule decimal.simps)

lemma decimal_0 [simp]: "decimal 0 = ''0''"
  by (simp add: decimal.simps)

lemma decimal_1 [simp]: "decimal (Suc 0) = ''1''"
  by (simp add: decimal.simps)

lemma getTimestamp_example: "getTimestamp 78000000 = ''2026-01-22 21:40''"
  by (simp add: getTimestamp_def)

lemma fixedDecimals_examples:
  "fixedDecimals 6 (33 / 2) = ''16.500000''"
  "fixedDecimals 6 (481 / 4) = ''120.250000''"
  by (simp_all add: fixedDecimals_def Let_def padLeft_def)

lemma toLowerCase_examples:
  "toLowerCase ''HIGH'' = ''high''" "toLowerCase ''EXTREME'' = ''extreme''"
  "toLowerCase ''LOW'' = ''low''" "toLowerCase ''MODERATE'' = ''moderate''"
  by (simp_all add: toLowerCase_def lowerChar_def)

lemma parseESP32Timestamp_examples:
  "parseESP32Timestamp exampleRuntime now (JStr ''2026-01-22 21:35'') = Some 1769088900000"
  "parseESP32Timestamp exampleRuntime now (JStr ''2026-99-99 99:99'') = Some 2033584740000"
  by (simp_all add: parseESP32Timestamp_def parseTimestampTry_def exampleRuntime_def
      decimalNumber_def digitValue_def element_def newDate_def toIntegerOrInfinity_def
      MakeDay_def MakeDate_def MakeTime_def TimeClip_def dayOfMonthStart_def)

lemma toFixed4_examples:
  "toFixed4 exampleRuntime (double (3323 / 200)) = ''16.6150''"
  "toFixed4 exampleRuntime (double (30079 / 250)) = ''120.3160''"
  "toFixed4 exampleRuntime (double (332301 / 20000)) = ''16.6151''"
  "toFixed4 exampleRuntime (double (2406321 / 20000)) = ''120.3161''"
  "toFixed4 exampleRuntime (double (166151 / 10000)) = ''16.6151''"
  "toFixed4 exampleRuntime (double (166149 / 10000)) = ''16.6149''"
  "toFixed4 exampleRuntime (double (20769 / 1250)) = ''16.6152''"
  unfolding double_examples
  by (simp_all add: exampleRuntime_def fixedDecimals_def Let_def padLeft_def)

section \<open>Properties of the producer\<close>

lemma classifySeverity_cases:
  "classifySeverity r =
     (if r < 500 then ''EXTREME'' else if r < 1000 then ''HIGH''
      else if r < 2000 then ''MODERATE'' else if r < 3000 then ''LOW'' else ''NONE'')"
  by (simp add: classifySeverity_def EXTREME_THRESHOLD_def HIGH_THRESHOLD_def
      MODERATE_THRESHOLD_def LOW_THRESHOLD_def)

lemma urgency_classifySeverity:
  "urgency (classifySeverity r) =
     (if r < 500 then 4 else if r < 1000 then 3
      else if r < 2000 then 2 else if r < 3000 then 1 else 0)"
  by (simp add: classifySeverity_cases urgency_def)

text \<open>
  Claim C1. For every reading \<open>r\<close> (in particular every \<open>r\<close> from 0 to 4095) the
  classifier returns EXTREME below 500, HIGH from 500 and below 1000, MODERATE from 1000
  and below 2000, LOW from 2000 and below 3000, and NONE from 3000 on; the result is always
  one of the five levels; the eight boundary readings fall as the table says; and a larger
  reading never has a higher urgency.
\<close>

theorem C1_classifySeverity_bands:
  "(r < 500 \<longrightarrow> classifySeverity r = ''EXTREME'') \<and>
   (500 \<le> r \<and> r < 1000 \<longrightarrow> classifySeverity r = ''HIGH'') \<and>
   (1000 \<le> r \<and> r < 2000 \<longrightarrow> classifySeverity r = ''MODERATE'') \<and>
   (2000 \<le> r \<and> r < 3000 \<longrightarrow> classifySeverity r = ''LOW'') \<and>
   (3000 \<le> r \<longrightarrow> classifySeverity r = ''NONE'') \<and>
   classifySeverity r \<in> {''EXTREME'', ''HIGH'', ''MODERATE'', ''LOW'', ''NONE''} \<and>
   classifySeverity 499 = ''EXTREME'' \<and> classifySeverity 500 = ''HIGH'' \<and>
   classifySeverity 999 = ''HIGH'' \<and> classifySeverity 1000 = ''MODERATE'' \<and>
   classifySeverity 1999 = ''MODERATE'' \<and> classifySeverity 2000 = ''LOW'' \<and>
   classifySeverity 2999 = ''LOW'' \<and> classifySeverity 3000 = ''NONE'' \<and>
   (r \<le> r' \<longrightarrow> urgency (classifySeverity r') \<le> urgency (classifySeverity r))"
proof -
  have bands:
    "(r < 500 \<longrightarrow> classifySeverity r = ''EXTREME'') \<and>
     (500 \<le> r \<and> r < 1000 \<longrightarrow> classifySeverity r = ''HIGH'') \<and>
     (1000 \<le> r \<and> r < 2000 \<longrightarrow> classifySeverity r = ''MODERATE'') \<and>
     (2000 \<le> r \<and> r < 3000 \<longrightarrow> classifySeverity r = ''LOW'') \<and>
     (3000 \<le> r \<longrightarrow> classifySeverity r = ''NONE'')"
    by (simp add: classifySeverity_cases)
  have level: "classifySeverity r \<in> {''EXTREME'', ''HIGH'', ''MODERATE'', ''LOW'', ''NONE''}"
    by (simp add: classifySeverity_cases)
  have boundaries:
    "classifySeverity 499 = ''EXTREME'' \<and> classifySeverity 500 = ''HIGH'' \<and>
     classifySeverity 999 = ''HIGH'' \<and> classifySeverity 1000 = ''MODERATE'' \<and>
     classifySeverity 1999 = ''MODERATE'' \<and> classifySeverity 2000 = ''LOW'' \<and>
     classifySeverity 2999 = ''LOW'' \<and> classifySeverity 3000 = ''NONE''"
    by (simp add: classifySeverity_cases)
  have mono: "r \<le> r' \<longrightarrow> urgency (classifySeverity r') \<le> urgency (classifySeverity r)"
    by (simp add: urgency_classifySeverity)
  from bands level boundaries mono show ?thesis by blast
qed

theorem C1_classifySeverity_bands_witness:
  "classifySeverity 1500 = ''MODERATE'' \<and>
   urgency (classifySeverity 2500) \<le> urgency (classifySeverity 1500)"
  using C1_classifySeverity_bands [of 1500 2500] by force

text \<open>
  Claim C5. The position check holds exactly when the fix indicator is set and the age of
  the fix is below 2000 ms. Then the response carries the two coordinates of the fix, each
  passed unchanged to the six-decimal rendering; otherwise it carries the fallback
  coordinates 16.615 and 120.316. Either way the body has a latitude and a longitude.
\<close>

theorem C5_position_validation:
  \<open>(isGPSValid gps \<longleftrightarrow> isValid gps \<and> unat (age gps) < 2000) \<and>
   resp_code (handleFireAlert String6 sensorValue currentMillis gps) = 200 \<and>
   resp_body (handleFireAlert String6 sensorValue currentMillis gps) =
     ''{"severity":"'' @ classifySeverity sensorValue @ ''","time":"''
       @ getTimestamp currentMillis @ ''",''
       @ (if isValid gps \<and> unat (age gps) < 2000
          then ''"latitude":'' @ String6 (fix_lat gps) @ '',"longitude":'' @ String6 (fix_lng gps)
          else ''"latitude":16.615,"longitude":120.316'')
       @ ''}''\<close>
proof -
  have valid: "isGPSValid gps \<longleftrightarrow> isValid gps \<and> unat (age gps) < 2000"
    by (simp add: isGPSValid_def word_less_nat_alt)
  show ?thesis
    unfolding valid [symmetric]
    by (simp add: handleFireAlert_def Let_def)
qed

theorem C5_position_validation_witness:
  \<open>\<not> isGPSValid \<lparr>isValid = True, age = 2000, fix_lat = 16.5, fix_lng = 120.25\<rparr> \<and>
   resp_body (handleFireAlert (fixedDecimals 6) 700 78000000
       \<lparr>isValid = True, age = 2000, fix_lat = 16.5, fix_lng = 120.25\<rparr>) =
     ''{"severity":"HIGH","time":"2026-01-22 21:40","latitude":16.615,"longitude":120.316}'' \<and>
   resp_body (handleFireAlert (fixedDecimals 6) 700 78000000
       \<lparr>isValid = True, age = 1999, fix_lat = 16.5, fix_lng = 120.25\<rparr>) =
     ''{"severity":"HIGH","time":"2026-01-22 21:40","latitude":16.500000,"longitude":120.250000}''\<close>
  using
    C5_position_validation [of "\<lparr>isValid = True, age = 2000, fix_lat = 16.5, fix_lng = 120.25\<rparr>"
      "fixedDecimals 6" 700 78000000]
    C5_position_validation [of "\<lparr>isValid = True, age = 1999, fix_lat = 16.5, fix_lng = 120.25\<rparr>"
      "fixedDecimals 6" 700 78000000]
  by (simp add: classifySeverity_cases getTimestamp_example fixedDecimals_examples)

section \<open>Properties of the consumer\<close>

text \<open>
  Claim C4. A snapshot whose severity is NONE changes nothing, whatever the state and
  whatever fingerprint the call compares with: the alerts, the popup, the stored
  fingerprint and the log of notification requests are as before, and no error leaves the
  tick.
\<close>

theorem C4_none_changes_nothing:
  "pollESP32Endpoint rt seen (Response code (JsonValue (data\<lparr>severity := JStr ''NONE''\<rparr>))) now st
     = (st, None)"
  by (simp add: pollESP32Endpoint_def pollTry_def truthy_def)

subsection \<open>One tick\<close>

lemma alertHash_not_empty: "alertHash rt data \<noteq> []"
  by (simp add: alertHash_def)

lemma pollESP32Endpoint_fst_eq:
  "fst (pollESP32Endpoint rt seen outcome now st) =
     (if esp32IpAddress st = [] \<or> platformOS rt = ''web'' then st
      else fst (pollTry rt seen outcome now st))"
  by (simp add: pollESP32Endpoint_def split: prod.splits)

lemma pollESP32Endpoint_enabled:
  "esp32IpAddress st \<noteq> [] \<Longrightarrow> platformOS rt \<noteq> ''web'' \<Longrightarrow>
   fst (pollESP32Endpoint rt seen outcome now st) = fst (pollTry rt seen outcome now st)"
  by (simp add: pollESP32Endpoint_fst_eq)

lemma pollESP32Endpoint_disabled:
  "esp32IpAddress st = [] \<or> platformOS rt = ''web'' \<Longrightarrow>
   fst (pollESP32Endpoint rt seen outcome now st) = st"
  by (auto simp: pollESP32Endpoint_fst_eq)

lemma pollESP32Endpoint_no_error: "snd (pollESP32Endpoint rt seen outcome now st) = None"
  by (simp add: pollESP32Endpoint_def split: prod.splits)

lemma pollESP32Endpoint_fst:
  "pollESP32Endpoint rt seen outcome now st
     = (fst (pollESP32Endpoint rt seen outcome now st), None)"
  using pollESP32Endpoint_no_error [of rt seen outcome now st] by (simp add: prod_eq_iff)

lemma pollTry_fire:
  assumes "response_ok code" "truthy (severity data)" "severity data \<noteq> JStr ''NONE''"
  shows "fst (pollTry rt seen (Response code (JsonValue data)) now st) =
     (if alertHash rt data \<noteq> seen
      then (case newAlertObject rt now data (parseESP32Timestamp rt now (time data)) of
              Inl e \<Rightarrow> st\<lparr>lastAlertHash := alertHash rt data\<rparr>
            | Inr newAlert \<Rightarrow> addAlert newAlert (st\<lparr>lastAlertHash := alertHash rt data\<rparr>))
      else st)"
  using assms by (simp add: pollTry_def Let_def split: sum.splits)

text \<open>How the \<open>try\<close> block ends on a fire snapshot.\<close>

lemma pollTry_end:
  assumes "response_ok code" "truthy (severity data)" "severity data \<noteq> JStr ''NONE''"
  shows "snd (pollTry rt seen (Response code (JsonValue data)) now st) =
     (if alertHash rt data \<noteq> seen
      then (case newAlertObject rt now data (parseESP32Timestamp rt now (time data)) of
              Inl e \<Rightarrow> Threw e
            | Inr newAlert \<Rightarrow> Processed)
      else SameFingerprint)"
  using assms by (simp add: pollTry_def Let_def split: sum.splits)

lemma newAlertObject_snapshot:
  "newAlertObject rt now \<lparr>severity = JStr sev, time = tm, latitude = JNum la, longitude = JNum lo\<rparr> t =
     Inr \<lparr>alert_id = now, alert_severity = toLowerCase sev,
          location = ''GPS: '' @ toFixed4 rt (double la) @ '', '' @ toFixed4 rt (double lo),
          coordinates = \<lparr>lat = double la, lng = double lo\<rparr>, alert_time = t,
          status = Active\<rparr>"
  by (simp add: newAlertObject_def)

text \<open>
  Whether the alert object can be built depends on the snapshot alone, and so do its
  coordinates; it is always active.
\<close>

lemma newAlertObject_Inl:
  "newAlertObject rt now data t = Inl e \<Longrightarrow> newAlertObject rt now' data t' = Inl e"
  by (auto simp: newAlertObject_def split: jsval.splits)

lemma newAlertObject_Inr:
  assumes "newAlertObject rt now data t = Inr a"
  shows "status a = Active"
    and "\<exists>b. newAlertObject rt now' data t' = Inr b \<and> coordinates b = coordinates a"
  using assms by (auto simp: newAlertObject_def split: jsval.splits)

lemma addAlert_empty:
  "alerts st = [] \<Longrightarrow>
   addAlert a st = st\<lparr>notifications := notifications st @ [triggerFireAlertNotification a],
                      showAlert := Some a, alerts := [a]\<rparr>"
  by (simp add: addAlert_def)

lemma addAlert_frame:
  "lastAlertHash (addAlert a st) = lastAlertHash st"
  "esp32IpAddress (addAlert a st) = esp32IpAddress st"
  "pollingIntervalRef (addAlert a st) = pollingIntervalRef st"
  "isPolling (addAlert a st) = isPolling st"
  by (simp_all add: addAlert_def Let_def)

lemma addAlert_near: "list_ex (sameFire a) (alerts st) \<Longrightarrow> addAlert a st = st"
  by (simp add: addAlert_def)

lemma sameFire_coordinates:
  "coordinates b = coordinates a \<Longrightarrow> sameFire b = sameFire a"
  by (simp add: sameFire_def fun_eq_iff)

text \<open>Once an alert was offered to the store, an active alert is near its place.\<close>

lemma addAlert_leaves_near:
  assumes "status a = Active" "coordinates b = coordinates a"
  shows "list_ex (sameFire b) (alerts (addAlert a st))"
proof (cases "list_ex (sameFire a) (alerts st)")
  case True
  then show ?thesis
    by (simp add: addAlert_near sameFire_coordinates [OF assms(2)])
next
  case False
  have "sameFire b a"
    using assms by (simp add: sameFire_def withinTolerance_refl)
  with False show ?thesis
    by (simp add: addAlert_def)
qed

lemma pollTry_frame:
  "esp32IpAddress (fst (pollTry rt seen outcome now st)) = esp32IpAddress st"
  "pollingIntervalRef (fst (pollTry rt seen outcome now st)) = pollingIntervalRef st"
  "isPolling (fst (pollTry rt seen outcome now st)) = isPolling st"
  by (simp_all add: pollTry_def Let_def addAlert_frame
      split: fetch_outcome.splits json_body.splits sum.splits)

lemma pollESP32Endpoint_frame:
  "esp32IpAddress (fst (pollESP32Endpoint rt seen outcome now st)) = esp32IpAddress st"
  "pollingIntervalRef (fst (pollESP32Endpoint rt seen outcome now st)) = pollingIntervalRef st"
  "isPolling (fst (pollESP32Endpoint rt seen outcome now st)) = isPolling st"
  by (simp_all add: pollESP32Endpoint_fst_eq pollTry_frame)

lemma pollTry_fails: "fetchFails outcome \<Longrightarrow> fst (pollTry rt seen outcome now st) = st"
  by (cases outcome) (auto simp: pollTry_def)

lemma pollESP32Endpoint_fails:
  "fetchFails outcome \<Longrightarrow> fst (pollESP32Endpoint rt seen outcome now st) = st"
  by (simp add: pollESP32Endpoint_fst_eq pollTry_fails)

text \<open>A tick that compares with the fingerprint of its own snapshot stops there.\<close>

lemma tick_same_hash:
  "fst (pollESP32Endpoint rt (alertHash rt data) (Response code (JsonValue data)) now st) = st"
  by (simp add: pollESP32Endpoint_fst_eq pollTry_def Let_def)

text \<open>A tick with a fire snapshot that is not stopped there stores its fingerprint.\<close>

lemma tick_sets_hash:
  assumes "esp32IpAddress st \<noteq> []" "platformOS rt \<noteq> ''web''" "response_ok code"
    "truthy (severity data)" "severity data \<noteq> JStr ''NONE''"
    "seen \<noteq> alertHash rt data"
  shows "lastAlertHash (fst (pollESP32Endpoint rt seen (Response code (JsonValue data)) now st))
           = alertHash rt data"
  using assms(6)
  by (simp add: pollESP32Endpoint_enabled [OF assms(1,2)] pollTry_fire [OF assms(3-5)]
      addAlert_frame split: sum.splits)

text \<open>
  After such a tick, a tick with the same snapshot changes nothing, whatever fingerprint
  it compares with: the stored fingerprint is already the snapshot's, and either the alert
  object cannot be built or an active alert is near.
\<close>

lemma tick_again:
  assumes enabled: "esp32IpAddress st \<noteq> []" "platformOS rt \<noteq> ''web''"
    and ok: "response_ok code"
    and fire: "truthy (severity data)" "severity data \<noteq> JStr ''NONE''"
    and first: "seen \<noteq> alertHash rt data"
    and st': "st' = fst (pollESP32Endpoint rt seen (Response code (JsonValue data)) now st)"
  shows "fst (pollESP32Endpoint rt seen' (Response code' (JsonValue data)) now' st') = st'"
proof (cases "response_ok code' \<and> seen' \<noteq> alertHash rt data")
  case False
  then show ?thesis
    by (auto simp: pollESP32Endpoint_fst_eq pollTry_def Let_def)
next
  case True
  have en': "esp32IpAddress st' \<noteq> []"
    using enabled by (simp add: st' pollESP32Endpoint_frame)
  have hash': "lastAlertHash st' = alertHash rt data"
    unfolding st' by (rule tick_sets_hash [OF enabled ok fire first])
  then have same: "st'\<lparr>lastAlertHash := alertHash rt data\<rparr> = st'"
    by simp
  let ?t = "parseESP32Timestamp rt now (time data)"
  let ?t' = "parseESP32Timestamp rt now' (time data)"
  have st'_is: "st' = (case newAlertObject rt now data ?t of
              Inl e \<Rightarrow> st\<lparr>lastAlertHash := alertHash rt data\<rparr>
            | Inr newAlert \<Rightarrow> addAlert newAlert (st\<lparr>lastAlertHash := alertHash rt data\<rparr>))"
    using first
    by (simp add: st' pollESP32Endpoint_enabled [OF enabled] pollTry_fire [OF ok fire])
  have next_is: "fst (pollESP32Endpoint rt seen' (Response code' (JsonValue data)) now' st') =
      (case newAlertObject rt now' data ?t' of
              Inl e \<Rightarrow> st'
            | Inr newAlert \<Rightarrow> addAlert newAlert st')"
  proof -
    from True have ok': "response_ok code'" and ne: "alertHash rt data \<noteq> seen'"
      by auto
    have "fst (pollESP32Endpoint rt seen' (Response code' (JsonValue data)) now' st') =
        fst (pollTry rt seen' (Response code' (JsonValue data)) now' st')"
      by (rule pollESP32Endpoint_enabled [OF en' enabled(2)])
    also have "\<dots> = (case newAlertObject rt now' data ?t' of
              Inl e \<Rightarrow> st'\<lparr>lastAlertHash := alertHash rt data\<rparr>
            | Inr newAlert \<Rightarrow> addAlert newAlert (st'\<lparr>lastAlertHash := alertHash rt data\<rparr>))"
      using ne by (simp add: pollTry_fire [OF ok' fire])
    also have "\<dots> = (case newAlertObject rt now' data ?t' of
              Inl e \<Rightarrow> st'
            | Inr newAlert \<Rightarrow> addAlert newAlert st')"
      by (simp only: same)
    finally show ?thesis .
  qed
  show ?thesis
  proof (cases "newAlertObject rt now data ?t")
    case (Inl e)
    from newAlertObject_Inl [OF Inl, of now' ?t'] show ?thesis
      by (simp add: next_is)
  next
    case (Inr a)
    from newAlertObject_Inr(2) [OF Inr, of now' ?t']
    obtain b where b: "newAlertObject rt now' data ?t' = Inr b"
      "coordinates b = coordinates a"
      by blast
    have act: "status a = Active"
      by (rule newAlertObject_Inr(1) [OF Inr])
    have "list_ex (sameFire b) (alerts st')"
      using addAlert_leaves_near [OF act b(2)] by (simp add: st'_is Inr)
    then show ?thesis
      by (simp add: next_is b(1) addAlert_near)
  qed
qed

text \<open>
  A tick with a fire snapshot that has a severity string and two coordinates, and whose
  fingerprint is not the one compared with: the fingerprint is stored and the alert is
  offered to the store.
\<close>

lemma first_fire_tick:
  assumes enabled: "esp32IpAddress st \<noteq> []" "platformOS rt \<noteq> ''web''"
    and fire: "sev \<noteq> []" "sev \<noteq> ''NONE''"
    and ok: "response_ok code"
    and S: "S = \<lparr>severity = JStr sev, time = tm, latitude = JNum la, longitude = JNum lo\<rparr>"
    and pass: "seen \<noteq> alertHash rt S"
    and a: "a = \<lparr>alert_id = now, alert_severity = toLowerCase sev,
                   location = ''GPS: '' @ toFixed4 rt (double la) @ '', '' @ toFixed4 rt (double lo),
                   coordinates = \<lparr>lat = double la, lng = double lo\<rparr>,
                   alert_time = parseESP32Timestamp rt now tm, status = Active\<rparr>"
  shows "fst (pollESP32Endpoint rt seen (Response code (JsonValue S)) now st)
           = addAlert a (st\<lparr>lastAlertHash := alertHash rt S\<rparr>)"
    and "snd (pollTry rt seen (Response code (JsonValue S)) now st) = Processed"
proof -
  have fireS: "truthy (severity S)" "severity S \<noteq> JStr ''NONE''"
    using fire by (simp_all add: S truthy_def)
  have mk: "newAlertObject rt now S (parseESP32Timestamp rt now (time S)) = Inr a"
    by (simp add: S a newAlertObject_snapshot)
  show "fst (pollESP32Endpoint rt seen (Response code (JsonValue S)) now st)
           = addAlert a (st\<lparr>lastAlertHash := alertHash rt S\<rparr>)"
    using pass by (simp add: pollESP32Endpoint_enabled [OF enabled]
        pollTry_fire [OF ok fireS] mk)
  show "snd (pollTry rt seen (Response code (JsonValue S)) now st) = Processed"
    using pass by (simp add: pollTry_end [OF ok fireS] mk)
qed

text \<open>Whatever a tick does to the stored fingerprint, it sets it to that of a fire snapshot.\<close>

lemma pollTry_hash_change:
  assumes "lastAlertHash (fst (pollTry rt seen outcome now st)) \<noteq> lastAlertHash st"
  shows "\<exists>code data. outcome = Response code (JsonValue data) \<and> response_ok code \<and>
           truthy (severity data) \<and> severity data \<noteq> JStr ''NONE'' \<and>
           alertHash rt data \<noteq> seen \<and> alertHash rt data \<noteq> lastAlertHash st \<and>
           lastAlertHash (fst (pollTry rt seen outcome now st)) = alertHash rt data"
proof (cases outcome)
  case FetchRejected
  with assms show ?thesis by (simp add: pollTry_def)
next
  case (Response code json)
  show ?thesis
  proof (cases json)
    case NotJson
    with assms Response show ?thesis by (simp add: pollTry_def split: if_splits)
  next
    case JsonNull
    with assms Response show ?thesis by (simp add: pollTry_def split: if_splits)
  next
    case (JsonValue data)
    with assms Response show ?thesis
      by (auto simp: pollTry_def Let_def addAlert_frame split: if_splits sum.splits)
  qed
qed

lemma pollESP32Endpoint_hash_change:
  assumes "lastAlertHash (fst (pollESP32Endpoint rt seen outcome now st)) \<noteq> lastAlertHash st"
  shows "\<exists>code data. outcome = Response code (JsonValue data) \<and> response_ok code \<and>
           truthy (severity data) \<and> severity data \<noteq> JStr ''NONE'' \<and>
           alertHash rt data \<noteq> seen \<and> alertHash rt data \<noteq> lastAlertHash st \<and>
           lastAlertHash (fst (pollESP32Endpoint rt seen outcome now st)) = alertHash rt data"
proof (cases "esp32IpAddress st = [] \<or> platformOS rt = ''web''")
  case True
  with assms pollESP32Endpoint_disabled [OF True] show ?thesis by simp
next
  case False
  then have "fst (pollESP32Endpoint rt seen outcome now st) = fst (pollTry rt seen outcome now st)"
    by (simp add: pollESP32Endpoint_enabled)
  with assms pollTry_hash_change [of rt seen outcome now st] show ?thesis by simp
qed

subsection \<open>Runs of ticks\<close>

lemma pollTicks_append:
  "pollTicks rt (ticks @ ticks') st = pollTicks rt ticks' (pollTicks rt ticks st)"
  by (induction ticks arbitrary: st) simp_all

lemma pollTicks_one:
  "pollingIntervalRef st = Some handle \<Longrightarrow>
   pollTicks rt [(seen, outcome, now)] st = fst (pollESP32Endpoint rt seen outcome now st)"
  by (simp add: intervalFires_def)

lemma intervalFires_none: "reportsNone tick \<Longrightarrow> intervalFires rt tick st = st"
  by (cases tick)
    (auto simp: reportsNone_def intervalFires_def pollESP32Endpoint_def pollTry_def truthy_def
      split: option.splits fetch_outcome.splits json_body.splits prod.splits)

lemma pollTicks_none: "list_all reportsNone ticks \<Longrightarrow> pollTicks rt ticks st = st"
  by (induction ticks arbitrary: st) (simp_all add: intervalFires_none)

lemma intervalFires_failed: "failedTick tick \<Longrightarrow> intervalFires rt tick st = st"
  by (cases tick)
    (simp add: failedTick_def intervalFires_def pollESP32Endpoint_fails split: option.splits)

lemma pollTicks_failed: "list_all failedTick ticks \<Longrightarrow> pollTicks rt ticks st = st"
  by (induction ticks arbitrary: st) (simp_all add: intervalFires_failed)

subsection \<open>The claims about the poller and the deduplicator\<close>

text \<open>
  Claim C2 on the code. The component is mounted with an address, so the timer is set in
  the initial state, where the stored fingerprint is empty; every tick of that timer
  compares with the empty fingerprint. The snapshot HIGH, 2026-01-22 21:35, 16.615,
  120.316 arrives at two consecutive ticks. The first tick makes the alert, issues one
  request and stores the fingerprint of the snapshot. The second tick is not stopped by
  the comparison of fingerprints, although the stored fingerprint is the snapshot's: its
  \<open>try\<close> block goes on to the call of \<open>setAlerts\<close>, where a call that compared with
  the stored fingerprint would have ended at the comparison, and the state stays as it was
  only because the alert of the first tick is active and at the same place. When the alert
  history is cleared between the two ticks, which leaves the stored fingerprint alone, the
  second tick makes a second alert and a second request.
\<close>

theorem C2_timer_repeat_passes_fingerprint:
  "(let first = timerTick pollingState (Response 200 (JsonValue exampleSnapshot), 1793678400000);
        again = timerTick pollingState (Response 200 (JsonValue exampleSnapshot), 1793678401000);
        stA = pollTicks exampleRuntime [first] pollingState;
        stB = pollTicks exampleRuntime [again] stA;
        stB' = pollTicks exampleRuntime [again] (clearAlertHistory stA)
    in alerts pollingState = [] \<and> lastAlertHash pollingState = [] \<and>
       map alert_id (alerts stA) = [1793678400000] \<and>
       length (notifications stA) = 1 \<and>
       lastAlertHash stA = alertHash exampleRuntime exampleSnapshot \<and>
       fst again = [] \<and>
       snd (pollTry exampleRuntime (fst again) (fst (snd again)) (snd (snd again)) stA)
         = Processed \<and>
       snd (pollTry exampleRuntime (lastAlertHash stA) (fst (snd again)) (snd (snd again)) stA)
         = SameFingerprint \<and>
       stB = stA \<and>
       lastAlertHash (clearAlertHistory stA) = alertHash exampleRuntime exampleSnapshot \<and>
       map alert_id (alerts stB') = [1793678401000] \<and>
       length (notifications stB') = 2)"
proof -
  let ?S = "Response 200 (JsonValue exampleSnapshot)"
  let ?H = "alertHash exampleRuntime exampleSnapshot"
  let ?first = "timerTick pollingState (?S, 1793678400000)"
  let ?again = "timerTick pollingState (?S, 1793678401000)"
  let ?stA = "pollTicks exampleRuntime [?first] pollingState"
  let ?a = "\<lambda>now. \<lparr>alert_id = now, alert_severity = toLowerCase ''HIGH'',
             location = ''GPS: '' @ toFixed4 exampleRuntime (double 16.615) @ '', ''
                          @ toFixed4 exampleRuntime (double 120.316),
             coordinates = \<lparr>lat = double 16.615, lng = double 120.316\<rparr>,
             alert_time = parseESP32Timestamp exampleRuntime now (JStr ''2026-01-22 21:35''),
             status = Active\<rparr>"
  have h: "esp32IpAddress pollingState \<noteq> []" "platformOS exampleRuntime \<noteq> ''web''"
    "''HIGH'' \<noteq> []" "''HIGH'' \<noteq> ''NONE''" "response_ok 200"
    by (simp_all add: pollingState_def startPolling_def initialState_def exampleRuntime_def
        response_ok_def)
  have ps: "alerts pollingState = []" "lastAlertHash pollingState = []"
    "pollingIntervalRef pollingState = Some 1" "notifications pollingState = []"
    by (simp_all add: pollingState_def startPolling_def initialState_def)
  have ticks: "?first = ([], ?S, 1793678400000)" "?again = ([], ?S, 1793678401000)"
    by (simp_all add: timerTick_def ps)
  have pass: "[] \<noteq> ?H"
    using alertHash_not_empty [of exampleRuntime exampleSnapshot] by simp
  have stA: "?stA = pollingState\<lparr>lastAlertHash := ?H,
      notifications := [triggerFireAlertNotification (?a 1793678400000)],
      showAlert := Some (?a 1793678400000), alerts := [?a 1793678400000]\<rparr>"
    unfolding ticks pollTicks_one [OF ps(3)]
      first_fire_tick(1) [OF h exampleSnapshot_def pass refl]
    by (simp add: addAlert_def ps)
  have enA: "esp32IpAddress ?stA \<noteq> []" "pollingIntervalRef ?stA = Some 1"
    "esp32IpAddress (clearAlertHistory ?stA) \<noteq> []"
    "pollingIntervalRef (clearAlertHistory ?stA) = Some 1"
    unfolding stA using h(1) ps(3) by (simp_all add: clearAlertHistory_def)
  have ended: "snd (pollTry exampleRuntime (fst ?again) (fst (snd ?again)) (snd (snd ?again)) ?stA)
      = Processed"
    unfolding ticks(2) fst_conv snd_conv
    by (rule first_fire_tick(2) [OF enA(1) h(2-5) exampleSnapshot_def pass refl])
  have stA_tick: "?stA = fst (pollESP32Endpoint exampleRuntime [] ?S 1793678400000 pollingState)"
    unfolding ticks(1) by (rule pollTicks_one [OF ps(3)])
  have fireS: "truthy (severity exampleSnapshot)" "severity exampleSnapshot \<noteq> JStr ''NONE''"
    by (simp_all add: exampleSnapshot_def truthy_def)
  have stB: "pollTicks exampleRuntime [?again] ?stA = ?stA"
    unfolding ticks(2) pollTicks_one [OF enA(2)]
    by (rule tick_again [OF h(1,2) h(5) fireS pass stA_tick])
  have cleared: "pollTicks exampleRuntime [?again] (clearAlertHistory ?stA) =
      pollingState\<lparr>lastAlertHash := ?H,
      notifications := [triggerFireAlertNotification (?a 1793678400000),
                        triggerFireAlertNotification (?a 1793678401000)],
      showAlert := Some (?a 1793678401000), alerts := [?a 1793678401000]\<rparr>"
    unfolding ticks(2) pollTicks_one [OF enA(4)]
      first_fire_tick(1) [OF enA(3) h(2-5) exampleSnapshot_def pass refl]
    unfolding stA
    by (simp add: addAlert_def clearAlertHistory_def)
  have A: "map alert_id (alerts ?stA) = [1793678400000]" "length (notifications ?stA) = 1"
    "lastAlertHash ?stA = ?H" "lastAlertHash (clearAlertHistory ?stA) = ?H"
    unfolding stA by (simp_all add: clearAlertHistory_def)
  have B: "map alert_id (alerts (pollTicks exampleRuntime [?again] (clearAlertHistory ?stA)))
      = [1793678401000]"
    "length (notifications (pollTicks exampleRuntime [?again] (clearAlertHistory ?stA))) = 2"
    unfolding cleared by simp_all
  have again: "fst ?again = []"
    by (simp add: ticks)
  have stop: "snd (pollTry exampleRuntime (lastAlertHash ?stA) (fst (snd ?again))
      (snd (snd ?again)) ?stA) = SameFingerprint"
    unfolding A(3) ticks(2) fst_conv snd_conv
    by (simp add: pollTry_end [OF h(5) fireS])
  show ?thesis
    unfolding Let_def using ps(1,2) A ended stop stB again B by blast
qed

text \<open>
  Claim C3, amended. With polling enabled and an empty store, let two snapshots with
  severities other than NONE be processed one after the other, neither stopped by the
  comparison of fingerprints. After the first the store holds its alert. The second is
  merged exactly when the test of the program succeeds in both axes: the difference of
  the two doubles, rounded to a double, is below the double nearest to 0.0001 in
  magnitude. Then the store still holds that one alert and no request is added; otherwise
  the store holds two different alerts, the new one first, and one request is added for
  the new one. For coordinates of magnitude at most 200, as written in the bodies: when
  both axes differ by at most 0.0000999 the second snapshot is merged, and when one axis
  differs by at least 0.0001001 it is not. And had the alert in the store been resolved,
  the second snapshot would have made a new alert wherever it is.
\<close>

theorem C3_proximity_in_doubles:
  assumes enabled: "esp32IpAddress st \<noteq> []" "platformOS rt \<noteq> ''web''"
    and fireA: "sevA \<noteq> []" "sevA \<noteq> ''NONE''"
    and fireB: "sevB \<noteq> []" "sevB \<noteq> ''NONE''"
    and ok: "response_ok codeA" "response_ok codeB"
    and SA: "SA = \<lparr>severity = JStr sevA, time = tmA, latitude = JNum laA, longitude = JNum loA\<rparr>"
    and SB: "SB = \<lparr>severity = JStr sevB, time = tmB, latitude = JNum laB, longitude = JNum loB\<rparr>"
    and empty: "alerts st = []"
    and passA: "seenA \<noteq> alertHash rt SA"
    and passB: "seenB \<noteq> alertHash rt SB"
    and a: "a = \<lparr>alert_id = nowA, alert_severity = toLowerCase sevA,
                   location = ''GPS: '' @ toFixed4 rt (double laA) @ '', ''
                                @ toFixed4 rt (double loA),
                   coordinates = \<lparr>lat = double laA, lng = double loA\<rparr>,
                   alert_time = parseESP32Timestamp rt nowA tmA, status = Active\<rparr>"
    and b: "b = \<lparr>alert_id = nowB, alert_severity = toLowerCase sevB,
                   location = ''GPS: '' @ toFixed4 rt (double laB) @ '', ''
                                @ toFixed4 rt (double loB),
                   coordinates = \<lparr>lat = double laB, lng = double loB\<rparr>,
                   alert_time = parseESP32Timestamp rt nowB tmB, status = Active\<rparr>"
    and stA: "stA = fst (pollESP32Endpoint rt seenA (Response codeA (JsonValue SA)) nowA st)"
    and stB: "stB = fst (pollESP32Endpoint rt seenB (Response codeB (JsonValue SB)) nowB stA)"
  shows "alerts stA = [a] \<and>
         notifications stA = notifications st @ [triggerFireAlertNotification a] \<and>
         (withinTolerance (double laA) (double laB) \<and>
          withinTolerance (double loA) (double loB) \<longrightarrow>
            alerts stB = [a] \<and> notifications stB = notifications stA) \<and>
         (\<not> withinTolerance (double laA) (double laB) \<or>
          \<not> withinTolerance (double loA) (double loB) \<longrightarrow>
            alerts stB = [b, a] \<and> b \<noteq> a \<and>
            notifications stB = notifications stA @ [triggerFireAlertNotification b]) \<and>
         (\<bar>laA\<bar> \<le> 200 \<and> \<bar>laB\<bar> \<le> 200 \<and> \<bar>loA\<bar> \<le> 200 \<and> \<bar>loB\<bar> \<le> 200 \<longrightarrow>
            (\<bar>laB - laA\<bar> \<le> 0.0000999 \<and> \<bar>loB - loA\<bar> \<le> 0.0000999 \<longrightarrow>
               alerts stB = [a] \<and> notifications stB = notifications stA) \<and>
            (0.0001001 \<le> \<bar>laB - laA\<bar> \<or> 0.0001001 \<le> \<bar>loB - loA\<bar> \<longrightarrow>
               alerts stB = [b, a] \<and> b \<noteq> a \<and>
               notifications stB = notifications stA @ [triggerFireAlertNotification b])) \<and>
         (status r = Resolved \<longrightarrow>
            alerts (fst (pollESP32Endpoint rt seenB (Response codeB (JsonValue SB)) nowB
                           (stA\<lparr>alerts := [r]\<rparr>))) = [b, r])"
proof -
  have stA_is: "stA = addAlert a (st\<lparr>lastAlertHash := alertHash rt SA\<rparr>)"
    unfolding stA by (rule first_fire_tick(1) [OF enabled fireA ok(1) SA passA a])
  have stA_rec: "stA = st\<lparr>lastAlertHash := alertHash rt SA,
                     notifications := notifications st @ [triggerFireAlertNotification a],
                     showAlert := Some a, alerts := [a]\<rparr>"
    by (simp add: stA_is addAlert_empty empty)
  have enA: "esp32IpAddress stA \<noteq> []"
    using enabled by (simp add: stA_rec)
  have stB_is: "stB = addAlert b (stA\<lparr>lastAlertHash := alertHash rt SB\<rparr>)"
    unfolding stB by (rule first_fire_tick(1) [OF enA enabled(2) fireB ok(2) SB passB b])
  have near: "sameFire b a \<longleftrightarrow>
      withinTolerance (double laA) (double laB) \<and> withinTolerance (double loA) (double loB)"
    by (simp add: sameFire_def a b)
  have first: "alerts stA = [a]"
    by (simp add: stA_rec)
  have firstReq: "notifications stA = notifications st @ [triggerFireAlertNotification a]"
    by (simp add: stA_rec)
  have merge: "alerts stB = [a] \<and> notifications stB = notifications stA"
    if "sameFire b a"
    using that by (simp add: stB_is addAlert_def first)
  have separate: "alerts stB = [b, a] \<and> b \<noteq> a \<and>
      notifications stB = notifications stA @ [triggerFireAlertNotification b]"
    if far: "\<not> sameFire b a"
  proof -
    have "sameFire a a"
      by (simp add: sameFire_def withinTolerance_refl a)
    with far have ne: "b \<noteq> a" by auto
    from far ne show ?thesis by (simp add: stB_is addAlert_def first)
  qed
  have margins: "(\<bar>laB - laA\<bar> \<le> 0.0000999 \<and> \<bar>loB - loA\<bar> \<le> 0.0000999 \<longrightarrow> sameFire b a) \<and>
      (0.0001001 \<le> \<bar>laB - laA\<bar> \<or> 0.0001001 \<le> \<bar>loB - loA\<bar> \<longrightarrow> \<not> sameFire b a)"
    if range: "\<bar>laA\<bar> \<le> 200 \<and> \<bar>laB\<bar> \<le> 200 \<and> \<bar>loA\<bar> \<le> 200 \<and> \<bar>loB\<bar> \<le> 200"
  proof -
    from range have r: "\<bar>laA\<bar> \<le> 200" "\<bar>laB\<bar> \<le> 200" "\<bar>loA\<bar> \<le> 200" "\<bar>loB\<bar> \<le> 200"
      by simp_all
    note la = withinTolerance_margin [OF r(1) r(2)]
    note lo = withinTolerance_margin [OF r(3) r(4)]
    have sw: "\<bar>laB - laA\<bar> = \<bar>laA - laB\<bar>" "\<bar>loB - loA\<bar> = \<bar>loA - loB\<bar>"
      by (simp_all add: abs_minus_commute)
    from la lo show ?thesis
      unfolding near sw by blast
  qed
  have resolved: "status r = Resolved \<longrightarrow>
      alerts (fst (pollESP32Endpoint rt seenB (Response codeB (JsonValue SB)) nowB
                     (stA\<lparr>alerts := [r]\<rparr>))) = [b, r]"
  proof -
    have en: "esp32IpAddress (stA\<lparr>alerts := [r]\<rparr>) \<noteq> []"
      using enA by simp
    show ?thesis
      unfolding first_fire_tick(1) [OF en enabled(2) fireB ok(2) SB passB b]
      by (simp add: addAlert_def sameFire_def)
  qed
  from first firstReq merge separate margins resolved near show ?thesis
    by blast
qed

theorem C3_proximity_in_doubles_witness:
  "(let stA = fst (pollESP32Endpoint exampleRuntime (lastAlertHash initialState)
                     (Response 200 (JsonValue exampleSnapshot)) 1793678400000 initialState);
        stB = fst (pollESP32Endpoint exampleRuntime (lastAlertHash stA)
                     (Response 200 (JsonValue nearbySnapshot)) 1793678460000 stA);
        stC = fst (pollESP32Endpoint exampleRuntime (lastAlertHash stA)
                     (Response 200 (JsonValue distantSnapshot)) 1793678460000 stA);
        stD = fst (pollESP32Endpoint exampleRuntime (lastAlertHash stA)
                     (Response 200 (JsonValue farSnapshot)) 1793678460000 stA);
        stE = fst (pollESP32Endpoint exampleRuntime (lastAlertHash stA)
                     (Response 200 (JsonValue nearbySnapshot)) 1793678460000
                     (stA\<lparr>alerts := map (\<lambda>x. x\<lparr>status := Resolved\<rparr>) (alerts stA)\<rparr>))
    in map alert_severity (alerts stB) = [''high''] \<and>
       length (notifications stB) = 1 \<and>
       map alert_severity (alerts stC) = [''extreme'', ''high''] \<and>
       map alert_id (alerts stC) = [1793678460000, 1793678400000] \<and>
       length (notifications stC) = 2 \<and>
       map alert_severity (alerts stD) = [''extreme'', ''high''] \<and>
       length (notifications stD) = 2 \<and>
       map status (alerts stE) = [Active, Resolved])"
proof -
  have h: "esp32IpAddress initialState \<noteq> []" "platformOS exampleRuntime \<noteq> ''web''"
    "''HIGH'' \<noteq> []" "''HIGH'' \<noteq> ''NONE''" "''EXTREME'' \<noteq> []" "''EXTREME'' \<noteq> ''NONE''"
    "response_ok 200" "response_ok 200"
    "exampleSnapshot = \<lparr>severity = JStr ''HIGH'', time = JStr ''2026-01-22 21:35'',
        latitude = JNum 16.615, longitude = JNum 120.316\<rparr>"
    by (simp_all add: initialState_def exampleRuntime_def response_ok_def exampleSnapshot_def)
  have nearS: "nearbySnapshot = \<lparr>severity = JStr ''EXTREME'', time = JStr ''2026-01-22 21:36'',
        latitude = JNum 16.61505, longitude = JNum 120.31605\<rparr>"
    by (simp add: nearbySnapshot_def)
  have distS: "distantSnapshot = \<lparr>severity = JStr ''EXTREME'', time = JStr ''2026-01-22 21:36'',
        latitude = JNum 16.6151, longitude = JNum 120.316\<rparr>"
    by (simp add: distantSnapshot_def)
  have farS: "farSnapshot = \<lparr>severity = JStr ''EXTREME'', time = JStr ''2026-01-22 21:36'',
        latitude = JNum 16.6152, longitude = JNum 120.316\<rparr>"
    by (simp add: farSnapshot_def)
  let ?stA = "fst (pollESP32Endpoint exampleRuntime (lastAlertHash initialState)
                     (Response 200 (JsonValue exampleSnapshot)) 1793678400000 initialState)"
  let ?a = "\<lparr>alert_id = 1793678400000, alert_severity = toLowerCase ''HIGH'',
             location = ''GPS: '' @ toFixed4 exampleRuntime (double 16.615) @ '', ''
                          @ toFixed4 exampleRuntime (double 120.316),
             coordinates = \<lparr>lat = double 16.615, lng = double 120.316\<rparr>,
             alert_time = parseESP32Timestamp exampleRuntime 1793678400000
                            (JStr ''2026-01-22 21:35''),
             status = Active\<rparr>"
  have stored: "lastAlertHash ?stA = alertHash exampleRuntime exampleSnapshot"
    by (rule tick_sets_hash)
      (simp_all add: initialState_def exampleRuntime_def response_ok_def exampleSnapshot_def
        truthy_def alertHash_def)
  have e: "alerts initialState = []"
    "lastAlertHash initialState \<noteq> alertHash exampleRuntime exampleSnapshot"
    "lastAlertHash ?stA \<noteq> alertHash exampleRuntime nearbySnapshot"
    "lastAlertHash ?stA \<noteq> alertHash exampleRuntime distantSnapshot"
    "lastAlertHash ?stA \<noteq> alertHash exampleRuntime farSnapshot"
    unfolding stored
    by (simp_all add: initialState_def alertHash_def toString_def exampleSnapshot_def
        nearbySnapshot_def distantSnapshot_def farSnapshot_def)
  note near = C3_proximity_in_doubles [OF h(1-8) h(9) nearS e(1,2,3) refl refl refl refl,
      where nowA = 1793678400000 and nowB = 1793678460000 and r = "?a\<lparr>status := Resolved\<rparr>"]
  note dist = C3_proximity_in_doubles [OF h(1-8) h(9) distS e(1,2,4) refl refl refl refl,
      where nowA = 1793678400000 and nowB = 1793678460000]
  note far = C3_proximity_in_doubles [OF h(1-8) h(9) farS e(1,2,5) refl refl refl refl,
      where nowA = 1793678400000 and nowB = 1793678460000]
  note evals = toLowerCase_examples
  have range: "\<bar>16.615 :: real\<bar> \<le> 200 \<and> \<bar>16.61505 :: real\<bar> \<le> 200 \<and>
      \<bar>120.316 :: real\<bar> \<le> 200 \<and> \<bar>120.31605 :: real\<bar> \<le> 200"
    by simp
  have range': "\<bar>16.615 :: real\<bar> \<le> 200 \<and> \<bar>16.6152 :: real\<bar> \<le> 200 \<and>
      \<bar>120.316 :: real\<bar> \<le> 200 \<and> \<bar>120.316 :: real\<bar> \<le> 200"
    by simp
  have d1: "\<bar>16.61505 - 16.615 :: real\<bar> \<le> 0.0000999 \<and>
      \<bar>120.31605 - 120.316 :: real\<bar> \<le> 0.0000999"
    by simp
  have d2: "\<not> withinTolerance (double 16.615) (double 16.6151) \<or>
      \<not> withinTolerance (double 120.316) (double 120.316)"
    using withinTolerance_examples(4) by blast
  have d3: "0.0001001 \<le> \<bar>16.6152 - 16.615 :: real\<bar> \<or>
      0.0001001 \<le> \<bar>120.316 - 120.316 :: real\<bar>"
    by simp
  have nA: "length (notifications ?stA) = 1"
    using near [THEN conjunct2, THEN conjunct1] by (simp add: initialState_def)
  have aA: "alerts ?stA = [?a]"
    using near [THEN conjunct1] .
  have B: "map alert_severity (alerts (fst (pollESP32Endpoint exampleRuntime (lastAlertHash ?stA)
        (Response 200 (JsonValue nearbySnapshot)) 1793678460000 ?stA))) = [''high'']
      \<and> length (notifications (fst (pollESP32Endpoint exampleRuntime (lastAlertHash ?stA)
        (Response 200 (JsonValue nearbySnapshot)) 1793678460000 ?stA))) = 1"
    using near [THEN conjunct2, THEN conjunct2, THEN conjunct2, THEN conjunct2, THEN conjunct1,
        THEN mp, OF range, THEN conjunct1, THEN mp, OF d1] nA
    by (simp add: evals)
  have C: "map alert_severity (alerts (fst (pollESP32Endpoint exampleRuntime (lastAlertHash ?stA)
        (Response 200 (JsonValue distantSnapshot)) 1793678460000 ?stA))) =
        [''extreme'', ''high'']
      \<and> map alert_id (alerts (fst (pollESP32Endpoint exampleRuntime (lastAlertHash ?stA)
        (Response 200 (JsonValue distantSnapshot)) 1793678460000 ?stA))) =
        [1793678460000, 1793678400000]
      \<and> length (notifications (fst (pollESP32Endpoint exampleRuntime (lastAlertHash ?stA)
        (Response 200 (JsonValue distantSnapshot)) 1793678460000 ?stA))) = 2"
    using dist [THEN conjunct2, THEN conjunct2, THEN conjunct2, THEN conjunct1, THEN mp, OF d2] nA
    by (simp add: evals)
  have D: "map alert_severity (alerts (fst (pollESP32Endpoint exampleRuntime (lastAlertHash ?stA)
        (Response 200 (JsonValue farSnapshot)) 1793678460000 ?stA))) =
        [''extreme'', ''high'']
      \<and> length (notifications (fst (pollESP32Endpoint exampleRuntime (lastAlertHash ?stA)
        (Response 200 (JsonValue farSnapshot)) 1793678460000 ?stA))) = 2"
    using far [THEN conjunct2, THEN conjunct2, THEN conjunct2, THEN conjunct2, THEN conjunct1,
        THEN mp, OF range', THEN conjunct2, THEN mp, OF d3] nA
    by (simp add: evals)
  have res: "status (?a\<lparr>status := Resolved\<rparr>) = Resolved"
    by simp
  have E: "map status (alerts (fst (pollESP32Endpoint exampleRuntime (lastAlertHash ?stA)
        (Response 200 (JsonValue nearbySnapshot)) 1793678460000
        (?stA\<lparr>alerts := map (\<lambda>x. x\<lparr>status := Resolved\<rparr>) (alerts ?stA)\<rparr>)))) =
        [Active, Resolved]"
    using near [THEN conjunct2, THEN conjunct2, THEN conjunct2, THEN conjunct2, THEN conjunct2,
        THEN mp, OF res]
    unfolding aA by simp
  show ?thesis
    unfolding Let_def using B C D E by blast
qed

text \<open>
  Claim C3 as stated fails at the boundary. The latitudes 16.615 and 16.6149 are 0.0001
  apart as written, and the fingerprints of the two snapshots differ, yet the doubles
  differ by less than the double nearest to 0.0001: the second snapshot is merged, and
  the store holds one alert where the claim says two.
\<close>

theorem C3_counterexample:
  "(let stA = fst (pollESP32Endpoint exampleRuntime (lastAlertHash initialState)
                     (Response 200 (JsonValue exampleSnapshot)) 1793678400000 initialState);
        stB = fst (pollESP32Endpoint exampleRuntime (lastAlertHash stA)
                     (Response 200 (JsonValue southSnapshot)) 1793678460000 stA)
    in latitude exampleSnapshot = JNum 16.615 \<and> latitude southSnapshot = JNum 16.6149 \<and>
       0.0001 \<le> \<bar>16.6149 - 16.615 :: real\<bar> \<and>
       alerts initialState = [] \<and>
       lastAlertHash stA \<noteq> alertHash exampleRuntime southSnapshot \<and>
       snd (pollTry exampleRuntime (lastAlertHash stA)
              (Response 200 (JsonValue southSnapshot)) 1793678460000 stA) = Processed \<and>
       map alert_severity (alerts stA) = [''high''] \<and>
       map alert_severity (alerts stB) = [''high''] \<and>
       length (notifications stB) = 1)"
proof -
  have h: "esp32IpAddress initialState \<noteq> []" "platformOS exampleRuntime \<noteq> ''web''"
    "''HIGH'' \<noteq> []" "''HIGH'' \<noteq> ''NONE''" "''EXTREME'' \<noteq> []" "''EXTREME'' \<noteq> ''NONE''"
    "response_ok 200"
    by (simp_all add: initialState_def exampleRuntime_def response_ok_def)
  let ?stA = "fst (pollESP32Endpoint exampleRuntime (lastAlertHash initialState)
                     (Response 200 (JsonValue exampleSnapshot)) 1793678400000 initialState)"
  let ?a = "\<lparr>alert_id = 1793678400000, alert_severity = toLowerCase ''HIGH'',
             location = ''GPS: '' @ toFixed4 exampleRuntime (double 16.615) @ '', ''
                          @ toFixed4 exampleRuntime (double 120.316),
             coordinates = \<lparr>lat = double 16.615, lng = double 120.316\<rparr>,
             alert_time = parseESP32Timestamp exampleRuntime 1793678400000
                            (JStr ''2026-01-22 21:35''),
             status = Active\<rparr>"
  let ?b = "\<lparr>alert_id = 1793678460000, alert_severity = toLowerCase ''EXTREME'',
             location = ''GPS: '' @ toFixed4 exampleRuntime (double 16.6149) @ '', ''
                          @ toFixed4 exampleRuntime (double 120.316),
             coordinates = \<lparr>lat = double 16.6149, lng = double 120.316\<rparr>,
             alert_time = parseESP32Timestamp exampleRuntime 1793678460000
                            (JStr ''2026-01-22 21:36''),
             status = Active\<rparr>"
  have passA: "lastAlertHash initialState \<noteq> alertHash exampleRuntime exampleSnapshot"
    by (simp add: initialState_def alertHash_not_empty [symmetric])
  have stA: "?stA = initialState\<lparr>lastAlertHash := alertHash exampleRuntime exampleSnapshot,
      notifications := [triggerFireAlertNotification ?a], showAlert := Some ?a, alerts := [?a]\<rparr>"
    unfolding first_fire_tick(1) [OF h(1-4) h(7) exampleSnapshot_def passA refl]
    by (simp add: addAlert_def initialState_def)
  have passB: "lastAlertHash ?stA \<noteq> alertHash exampleRuntime southSnapshot"
    unfolding stA
    by (simp add: alertHash_def toString_def exampleSnapshot_def southSnapshot_def)
  have enA: "esp32IpAddress ?stA \<noteq> []"
    unfolding stA by (simp add: initialState_def)
  have near: "sameFire ?b ?a"
    using withinTolerance_examples(1) by (simp add: sameFire_def withinTolerance_refl)
  have ex: "list_ex (sameFire ?b)
      (alerts (?stA\<lparr>lastAlertHash := alertHash exampleRuntime southSnapshot\<rparr>))"
    using near unfolding stA by simp
  have stB: "fst (pollESP32Endpoint exampleRuntime (lastAlertHash ?stA)
      (Response 200 (JsonValue southSnapshot)) 1793678460000 ?stA)
        = ?stA\<lparr>lastAlertHash := alertHash exampleRuntime southSnapshot\<rparr>"
    unfolding first_fire_tick(1) [OF enA h(2) h(5,6) h(7) southSnapshot_def passB refl]
    using ex by (rule addAlert_near)
  have ended: "snd (pollTry exampleRuntime (lastAlertHash ?stA)
      (Response 200 (JsonValue southSnapshot)) 1793678460000 ?stA) = Processed"
    by (rule first_fire_tick(2) [OF enA h(2) h(5,6) h(7) southSnapshot_def passB refl])
  have sevA: "map alert_severity (alerts ?stA) = [''high'']"
    unfolding stA by (simp add: toLowerCase_examples)
  have nA: "length (notifications ?stA) = 1"
    unfolding stA by simp
  have facts: "latitude exampleSnapshot = JNum 16.615" "latitude southSnapshot = JNum 16.6149"
    "0.0001 \<le> \<bar>16.6149 - 16.615 :: real\<bar>" "alerts initialState = []"
    by (simp_all add: exampleSnapshot_def southSnapshot_def initialState_def)
  have B: "map alert_severity (alerts (fst (pollESP32Endpoint exampleRuntime (lastAlertHash ?stA)
        (Response 200 (JsonValue southSnapshot)) 1793678460000 ?stA))) = [''high'']"
    "length (notifications (fst (pollESP32Endpoint exampleRuntime (lastAlertHash ?stA)
        (Response 200 (JsonValue southSnapshot)) 1793678460000 ?stA))) = 1"
    unfolding stB using sevA nA by simp_all
  show ?thesis
    unfolding Let_def using facts passB ended sevA B by blast
qed

text \<open>
  Claim C10 on the code. On the timer set in the initial state, the snapshot HIGH,
  2026-01-22 21:35, 16.615, 120.316 is followed by two snapshots with severity NONE, which
  change nothing, so the stored fingerprint is still that of the first snapshot. A tick
  with the first snapshot again is not stopped by the comparison of fingerprints, because
  the timer compares with the empty fingerprint: its \<open>try\<close> block goes on to the call
  of \<open>setAlerts\<close>, where a call that compared with the stored fingerprint would have
  ended at the comparison. When the alert history has been cleared in the meantime, which
  leaves the stored fingerprint alone, that tick makes a new alert and a second request.
\<close>

theorem C10_repeat_after_none_passes_fingerprint:
  "(let first = timerTick pollingState (Response 200 (JsonValue exampleSnapshot), 1793678400000);
        none1 = timerTick pollingState (Response 200 (JsonValue noneSnapshot), 1793678401000);
        none2 = timerTick pollingState (Response 200 (JsonValue noneSnapshot), 1793678402000);
        again = timerTick pollingState (Response 200 (JsonValue exampleSnapshot), 1793678403000);
        stA = pollTicks exampleRuntime [first] pollingState;
        stB = pollTicks exampleRuntime [none1, none2] stA;
        stC = pollTicks exampleRuntime [again] (clearAlertHistory stB)
    in stB = stA \<and>
       lastAlertHash stB = alertHash exampleRuntime exampleSnapshot \<and>
       length (notifications stB) = 1 \<and>
       fst again = [] \<and>
       snd (pollTry exampleRuntime (fst again) (fst (snd again)) (snd (snd again)) stB)
         = Processed \<and>
       snd (pollTry exampleRuntime (lastAlertHash stB) (fst (snd again)) (snd (snd again)) stB)
         = SameFingerprint \<and>
       alerts (clearAlertHistory stB) = [] \<and>
       lastAlertHash (clearAlertHistory stB) = alertHash exampleRuntime exampleSnapshot \<and>
       map alert_id (alerts stC) = [1793678403000] \<and>
       length (notifications stC) = 2)"
proof -
  let ?S = "Response 200 (JsonValue exampleSnapshot)"
  let ?N = "Response 200 (JsonValue noneSnapshot)"
  let ?H = "alertHash exampleRuntime exampleSnapshot"
  let ?first = "timerTick pollingState (?S, 1793678400000)"
  let ?none1 = "timerTick pollingState (?N, 1793678401000)"
  let ?none2 = "timerTick pollingState (?N, 1793678402000)"
  let ?again = "timerTick pollingState (?S, 1793678403000)"
  let ?stA = "pollTicks exampleRuntime [?first] pollingState"
  let ?stB = "pollTicks exampleRuntime [?none1, ?none2] ?stA"
  let ?a = "\<lambda>now. \<lparr>alert_id = now, alert_severity = toLowerCase ''HIGH'',
             location = ''GPS: '' @ toFixed4 exampleRuntime (double 16.615) @ '', ''
                          @ toFixed4 exampleRuntime (double 120.316),
             coordinates = \<lparr>lat = double 16.615, lng = double 120.316\<rparr>,
             alert_time = parseESP32Timestamp exampleRuntime now (JStr ''2026-01-22 21:35''),
             status = Active\<rparr>"
  have h: "esp32IpAddress pollingState \<noteq> []" "platformOS exampleRuntime \<noteq> ''web''"
    "''HIGH'' \<noteq> []" "''HIGH'' \<noteq> ''NONE''" "response_ok 200"
    by (simp_all add: pollingState_def startPolling_def initialState_def exampleRuntime_def
        response_ok_def)
  have ps: "alerts pollingState = []" "lastAlertHash pollingState = []"
    "pollingIntervalRef pollingState = Some 1" "notifications pollingState = []"
    by (simp_all add: pollingState_def startPolling_def initialState_def)
  have ticks: "?first = ([], ?S, 1793678400000)" "?again = ([], ?S, 1793678403000)"
    by (simp_all add: timerTick_def ps)
  have nones: "list_all reportsNone [?none1, ?none2]"
    by (simp add: timerTick_def reportsNone_def noneSnapshot_def)
  have same: "?stB = ?stA"
    by (rule pollTicks_none [OF nones])
  have pass: "[] \<noteq> ?H"
    using alertHash_not_empty [of exampleRuntime exampleSnapshot] by simp
  have stA: "?stA = pollingState\<lparr>lastAlertHash := ?H,
      notifications := [triggerFireAlertNotification (?a 1793678400000)],
      showAlert := Some (?a 1793678400000), alerts := [?a 1793678400000]\<rparr>"
    unfolding ticks pollTicks_one [OF ps(3)]
      first_fire_tick(1) [OF h exampleSnapshot_def pass refl]
    by (simp add: addAlert_def ps)
  have enA: "esp32IpAddress ?stA \<noteq> []"
    "esp32IpAddress (clearAlertHistory ?stA) \<noteq> []"
    "pollingIntervalRef (clearAlertHistory ?stA) = Some 1"
    unfolding stA using h(1) ps(3) by (simp_all add: clearAlertHistory_def)
  have ended: "snd (pollTry exampleRuntime (fst ?again) (fst (snd ?again)) (snd (snd ?again)) ?stB)
      = Processed"
    unfolding same ticks(2) fst_conv snd_conv
    by (rule first_fire_tick(2) [OF enA(1) h(2-5) exampleSnapshot_def pass refl])
  have cleared: "pollTicks exampleRuntime [?again] (clearAlertHistory ?stB) =
      pollingState\<lparr>lastAlertHash := ?H,
      notifications := [triggerFireAlertNotification (?a 1793678400000),
                        triggerFireAlertNotification (?a 1793678403000)],
      showAlert := Some (?a 1793678403000), alerts := [?a 1793678403000]\<rparr>"
    unfolding same ticks(2) pollTicks_one [OF enA(3)]
      first_fire_tick(1) [OF enA(2) h(2-5) exampleSnapshot_def pass refl]
    unfolding stA
    by (simp add: addAlert_def clearAlertHistory_def)
  have B: "lastAlertHash ?stB = ?H" "length (notifications ?stB) = 1"
    "alerts (clearAlertHistory ?stB) = []" "lastAlertHash (clearAlertHistory ?stB) = ?H"
    unfolding same unfolding stA by (simp_all add: clearAlertHistory_def)
  have C: "map alert_id (alerts (pollTicks exampleRuntime [?again] (clearAlertHistory ?stB)))
      = [1793678403000]"
    "length (notifications (pollTicks exampleRuntime [?again] (clearAlertHistory ?stB))) = 2"
    unfolding cleared by simp_all
  have again: "fst ?again = []"
    by (simp add: ticks)
  have fireS: "truthy (severity exampleSnapshot)" "severity exampleSnapshot \<noteq> JStr ''NONE''"
    by (simp_all add: exampleSnapshot_def truthy_def)
  have stop: "snd (pollTry exampleRuntime (lastAlertHash ?stB) (fst (snd ?again))
      (snd (snd ?again)) ?stB) = SameFingerprint"
    unfolding B(1) ticks(2) fst_conv snd_conv
    by (simp add: pollTry_end [OF h(5) fireS])
  show ?thesis
    unfolding Let_def using same B ended stop again C by blast
qed

lemma newAlertObject_unusable:
  "unusableSnapshot data \<Longrightarrow> \<exists>e. newAlertObject rt now data t = Inl e"
  by (auto simp: unusableSnapshot_def newAlertObject_def split: jsval.splits)

lemma pollTry_unusable:
  assumes "unusableSnapshot data"
  shows "fst (pollTry rt seen (Response code (JsonValue data)) now st) = st \<or>
         fst (pollTry rt seen (Response code (JsonValue data)) now st)
           = st\<lparr>lastAlertHash := alertHash rt data\<rparr>"
  using newAlertObject_unusable [OF assms, of rt now "parseESP32Timestamp rt now (time data)"]
  by (auto simp: pollTry_def Let_def)

text \<open>
  Claim C6, as the code has it. A tick whose fetch fails (the promise rejects, the status is
  outside 200 to 299, or the body is not JSON or is \<open>null\<close>) returns the state it was
  given. A tick whose body is JSON but has a severity that is not a string, or a latitude
  or longitude that is not a number, changes at most the stored fingerprint, which then
  is the fingerprint of that body. No tick lets an error out, and no tick touches the
  interval timer. After any number of failed ticks in a row the state is unchanged and the
  next tick is processed as it would have been at the start.
\<close>

theorem C6_failed_tick_discarded:
  "(fetchFails outcome \<longrightarrow> pollESP32Endpoint rt seen outcome now st = (st, None)) \<and>
   (unusableSnapshot data \<longrightarrow>
      pollESP32Endpoint rt seen (Response code (JsonValue data)) now st = (st, None) \<or>
      pollESP32Endpoint rt seen (Response code (JsonValue data)) now st
        = (st\<lparr>lastAlertHash := alertHash rt data\<rparr>, None)) \<and>
   snd (pollESP32Endpoint rt seen outcome now st) = None \<and>
   pollingIntervalRef (fst (pollESP32Endpoint rt seen outcome now st)) = pollingIntervalRef st \<and>
   (list_all failedTick ticks \<longrightarrow>
      pollTicks rt ticks st = st \<and>
      pollTicks rt (ticks @ [later]) st = intervalFires rt later st)"
proof -
  have fails: "fetchFails outcome \<longrightarrow> pollESP32Endpoint rt seen outcome now st = (st, None)"
    using pollESP32Endpoint_fst [of rt seen outcome now st]
      pollESP32Endpoint_fails [of outcome rt seen now st]
    by auto
  have unusable: "unusableSnapshot data \<longrightarrow>
      pollESP32Endpoint rt seen (Response code (JsonValue data)) now st = (st, None) \<or>
      pollESP32Endpoint rt seen (Response code (JsonValue data)) now st
        = (st\<lparr>lastAlertHash := alertHash rt data\<rparr>, None)"
  proof
    assume u: "unusableSnapshot data"
    have "fst (pollESP32Endpoint rt seen (Response code (JsonValue data)) now st) = st \<or>
          fst (pollESP32Endpoint rt seen (Response code (JsonValue data)) now st)
            = st\<lparr>lastAlertHash := alertHash rt data\<rparr>"
      using pollTry_unusable [OF u, of rt seen code now st]
      by (auto simp: pollESP32Endpoint_fst_eq)
    then show "pollESP32Endpoint rt seen (Response code (JsonValue data)) now st = (st, None) \<or>
      pollESP32Endpoint rt seen (Response code (JsonValue data)) now st
        = (st\<lparr>lastAlertHash := alertHash rt data\<rparr>, None)"
      using pollESP32Endpoint_fst [of rt seen "Response code (JsonValue data)" now st] by auto
  qed
  have loop: "list_all failedTick ticks \<longrightarrow>
      pollTicks rt ticks st = st \<and>
      pollTicks rt (ticks @ [later]) st = intervalFires rt later st"
    by (simp add: pollTicks_append pollTicks_failed)
  from fails unusable loop show ?thesis
    by (simp add: pollESP32Endpoint_no_error pollESP32Endpoint_frame)
qed

theorem C6_failed_tick_discarded_witness:
  "pollESP32Endpoint exampleRuntime (lastAlertHash pollingState) (Response 500 NotJson)
       1793678400000 pollingState
     = (pollingState, None) \<and>
   alerts (fst (pollESP32Endpoint exampleRuntime (lastAlertHash pollingState)
                  (Response 200 (JsonValue truncatedSnapshot)) 1793678400000 pollingState)) = [] \<and>
   pollTicks exampleRuntime
     (map (\<lambda>i. ('''', FetchRejected, 1793678400000 + 1000 * int i)) [0..<10]) pollingState
     = pollingState \<and>
   pollTicks exampleRuntime
     (map (\<lambda>i. ('''', FetchRejected, 1793678400000 + 1000 * int i)) [0..<10]
        @ [('''', Response 200 (JsonValue exampleSnapshot), 1793678410000)]) pollingState
     = intervalFires exampleRuntime ('''', Response 200 (JsonValue exampleSnapshot), 1793678410000)
         pollingState"
proof -
  have f: "fetchFails (Response 500 NotJson)"
    by (simp add: response_ok_def)
  have u: "unusableSnapshot truncatedSnapshot"
    by (simp add: unusableSnapshot_def truncatedSnapshot_def)
  have l: "list_all failedTick
             (map (\<lambda>i. ('''', FetchRejected, 1793678400000 + 1000 * int i)) [0..<10])"
    by (simp add: list_all_iff failedTick_def)
  note w = C6_failed_tick_discarded [where rt = exampleRuntime and st = pollingState
      and seen = "lastAlertHash pollingState"
      and outcome = "Response 500 NotJson" and now = 1793678400000
      and data = truncatedSnapshot and code = 200
      and ticks = "map (\<lambda>i. ('''', FetchRejected, 1793678400000 + 1000 * int i)) [0..<10]"
      and later = "('''', Response 200 (JsonValue exampleSnapshot), 1793678410000)"]
  note failed = w [THEN conjunct1, THEN mp, OF f]
  note unusable = w [THEN conjunct2, THEN conjunct1, THEN mp, OF u]
  note loop = w [THEN conjunct2, THEN conjunct2, THEN conjunct2, THEN conjunct2, THEN mp, OF l]
  have store: "alerts (fst (pollESP32Endpoint exampleRuntime (lastAlertHash pollingState)
      (Response 200 (JsonValue truncatedSnapshot)) 1793678400000 pollingState)) = []"
    using unusable by (auto simp: pollingState_def startPolling_def initialState_def)
  from failed store loop show ?thesis by blast
qed

text \<open>
  Claim C6 as stated fails in two places. A body that is JSON but lacks the coordinates
  replaces the stored fingerprint (here the empty one of the initial state); and a status
  other than 200 that is still in the range 200 to 299, such as 201, is processed like 200:
  its snapshot becomes an alert.
\<close>

theorem C6_counterexample:
  "lastAlertHash initialState = [] \<and>
   lastAlertHash (fst (pollESP32Endpoint exampleRuntime (lastAlertHash initialState)
       (Response 200 (JsonValue truncatedSnapshot)) 1793678400000 initialState))
     = ''HIGH-undefined-undefined-2026-01-22 21:35'' \<and>
   alerts initialState = [] \<and>
   map alert_severity (alerts (fst (pollESP32Endpoint exampleRuntime (lastAlertHash initialState)
       (Response 201 (JsonValue exampleSnapshot)) 1793678400000 initialState))) = [''high'']"
  by (simp add: pollESP32Endpoint_def pollTry_def response_ok_def initialState_def
      exampleRuntime_def truncatedSnapshot_def exampleSnapshot_def truthy_def alertHash_def
      toString_def newAlertObject_def addAlert_def Let_def toLowerCase_examples)

text \<open>
  Claim C7 at the timestamp of the specification's scenario. \<open>Date\<close> carries the month
  99, the day 99, the hour 99 and the minute 99 over, so nothing is thrown and the
  \<open>catch\<close> block does not run: the alert is created, and its time is 11 June 2034, 04:39
  local time, not the clock reading 1793678400000 of the tick.
\<close>

theorem C7_out_of_range_timestamp:
  "parseESP32Timestamp exampleRuntime 1793678400000 (JStr ''2026-99-99 99:99'')
     = Some 2033584740000 \<and>
   map alert_time (alerts (fst (pollESP32Endpoint exampleRuntime (lastAlertHash initialState)
       (Response 200 (JsonValue (exampleSnapshot\<lparr>time := JStr ''2026-99-99 99:99''\<rparr>)))
       1793678400000 initialState))) = [Some 2033584740000]"
proof -
  have "pollESP32Endpoint exampleRuntime (lastAlertHash initialState)
       (Response 200 (JsonValue (exampleSnapshot\<lparr>time := JStr ''2026-99-99 99:99''\<rparr>)))
       1793678400000 initialState =
     (addAlert \<lparr>alert_id = 1793678400000, alert_severity = ''high'',
         location = ''GPS: '' @ toFixed4 exampleRuntime (double 16.615) @ '', ''
            @ toFixed4 exampleRuntime (double 120.316),
         coordinates = \<lparr>lat = double 16.615, lng = double 120.316\<rparr>,
         alert_time = Some 2033584740000, status = Active\<rparr>
        (initialState\<lparr>lastAlertHash :=
           alertHash exampleRuntime (exampleSnapshot\<lparr>time := JStr ''2026-99-99 99:99''\<rparr>)\<rparr>),
      None)"
    by (simp add: pollESP32Endpoint_def pollTry_def response_ok_def newAlertObject_def Let_def
        exampleSnapshot_def truthy_def alertHash_not_empty parseESP32Timestamp_examples
        toLowerCase_examples initialState_def)
      (simp add: exampleRuntime_def)
  then show ?thesis
    by (simp add: parseESP32Timestamp_examples addAlert_def initialState_def)
qed

text \<open>
  Claim C8 on the code. The content of every request has the properties title, body, sound
  and data, and none named priority, although the profile for extreme has the priority
  MAX. And the severity \<open>constructor\<close>, which is none of the four keys, finds the
  inherited property instead of the profile for low: the request then has no title.
\<close>

theorem C8_request_without_priority:
  "map fst (content (triggerFireAlertNotification alert)) = [''title'', ''body'', ''sound'', ''data''] \<and>
   map_of (content (triggerFireAlertNotification alert)) ''priority'' = None \<and>
   map_option priority (map_of (severityConfig alert) ''extreme'') = Some PriorityMax \<and>
   selectConfig (alert\<lparr>alert_severity := ''constructor''\<rparr>) = Inherited \<and>
   map_of (content (triggerFireAlertNotification (alert\<lparr>alert_severity := ''constructor''\<rparr>)))
     ''title'' = Some Undefined"
  by (simp add: triggerFireAlertNotification_def selectConfig_def severityConfig_def
      objectPrototypeKeys_def Let_def)

text \<open>
  Claim C9 on the code. An alert made by the poller and a test alert made while the clock
  shows the same millisecond are two different alerts with the same id.
\<close>

theorem C9_same_millisecond_same_id:
  "(case generateTestFireAlert 0 0 0.5 0.5 1793678400000
           (fst (pollESP32Endpoint exampleRuntime (lastAlertHash initialState)
                   (Response 200 (JsonValue exampleSnapshot)) 1793678400000 initialState)) of
      None \<Rightarrow> False
    | Some st \<Rightarrow>
        map alert_id (alerts st) = [1793678400000, 1793678400000] \<and>
        map alert_severity (alerts st) = [''low'', ''high''] \<and>
        map (lat \<circ> coordinates) (alerts st) = [double 16.6542, double 16.615])"
  by (simp add: generateTestFireAlert_def testLocations_def severities_def Let_def
      pollESP32Endpoint_def pollTry_def response_ok_def newAlertObject_def
      exampleSnapshot_def truthy_def alertHash_not_empty parseESP32Timestamp_examples
      toLowerCase_examples initialState_def addAlert_def double_examples
      double_of_double_examples)
    (simp add: exampleRuntime_def)
end
